theory Spec2Isabelle
  imports Main
begin

section \<open>Strings and numbers of the host language\<close>

text \<open>
  The server is a Node.js program. Strings are byte lists; a JavaScript number that holds
  a count is an \<open>int\<close> (exact for magnitudes below \<open>2 ^ 53\<close>, where a double holds every
  integer), and \<open>NaN\<close> is \<open>None\<close>.
\<close>

definition nl :: string where
  "nl = [CHR 0x0A]"

definition sq :: string where
  "sq = [CHR 0x27]"

definition unlines :: "string list \<Rightarrow> string" where
  "unlines ls = concat (map (\<lambda>l. l @ nl) ls)"

text \<open>
  A template literal \<open>`${n}`\<close> prints an integer in decimal (below \<open>10 ^ 21\<close> in
  magnitude, which covers every count that is exact).
\<close>

function showNat :: "nat \<Rightarrow> string" where
  "showNat n = (if n < 10 then [''0123456789'' ! n]
                else showNat (n div 10) @ [''0123456789'' ! (n mod 10)])"
  by pat_completeness auto
termination
  by (relation "measure id") auto

declare showNat.simps [simp del]

definition showInt :: "int \<Rightarrow> string" where
  "showInt i = (if i < 0 then ''-'' @ showNat (nat (- i)) else showNat (nat i))"

text \<open>\<open>String.prototype.includes\<close>: substring test.\<close>

fun startsWith :: "string \<Rightarrow> string \<Rightarrow> bool" where
  "startsWith s [] = True"
| "startsWith [] (p # ps) = False"
| "startsWith (c # cs) (p # ps) = (c = p \<and> startsWith cs ps)"

fun str_includes :: "string \<Rightarrow> string \<Rightarrow> bool" where
  "str_includes [] pat = (pat = [])"
| "str_includes (c # cs) pat = (startsWith (c # cs) pat \<or> str_includes cs pat)"

text \<open>
  \<open>parseInt(string, 10)\<close> of ECMAScript: leading white space is skipped, one sign is
  read, then the longest run of decimal digits; no digit gives \<open>NaN\<close>. Whatever follows
  the digits is ignored. (The white space recognised here is the ASCII part of the
  language's white-space set.)
\<close>

definition isWhiteSpace :: "char \<Rightarrow> bool" where
  "isWhiteSpace c = (c \<in> set [CHR 0x20, CHR 0x09, CHR 0x0A, CHR 0x0B, CHR 0x0C, CHR 0x0D])"

definition isDigit :: "char \<Rightarrow> bool" where
  "isDigit c = (c \<in> set ''0123456789'')"

definition digitVal :: "char \<Rightarrow> nat" where
  "digitVal c = of_char c - 48"

definition digitsVal :: "string \<Rightarrow> nat" where
  "digitsVal z = foldl (\<lambda>a c. 10 * a + digitVal c) 0 z"

definition signOf :: "string \<Rightarrow> int" where
  "signOf s = (case s of c # r \<Rightarrow> if c = CHR ''-'' then - 1 else 1 | [] \<Rightarrow> 1)"

definition dropSign :: "string \<Rightarrow> string" where
  "dropSign s = (case s of c # r \<Rightarrow> if c = CHR ''-'' \<or> c = CHR ''+'' then r else s | [] \<Rightarrow> [])"

definition parseInt10 :: "string \<Rightarrow> int option" where
  "parseInt10 str =
     (let s1 = dropWhile isWhiteSpace str;
          z = takeWhile isDigit (dropSign s1)
      in if z = [] then None else Some (signOf s1 * int (digitsVal z)))"

text \<open>\<open>nanOrElse\<close> (lines 64-70).\<close>

definition nanOrElse :: "int option \<Rightarrow> int \<Rightarrow> int" where
  "nanOrElse a b = (case a of None \<Rightarrow> b | Some x \<Rightarrow> x)"

section \<open>Data model (lines 18-37)\<close>

text \<open>
  A request as the handler reads it: \<open>req.method\<close>, the canonical path \<open>reqPath\<close> that
  \<open>path.resolve\<close> returns for the URL (an absolute path, so never a key that every
  JavaScript object has), the value of the query parameter \<open>n\<close> as \<open>parseInt\<close> receives
  it (\<open>None\<close> when the parameter is absent), and the headers the server looks at. The
  helpers \<open>opt\<close> and \<open>optMap\<close> of \<open>./utils\<close>, through which the source reaches the path and
  the query of the URL, are not among the sources: what they deliver is taken as given, in
  the fields \<open>reqPath\<close> and \<open>query_n\<close>.
\<close>

record request =
  reqMethod :: string
  reqPath :: string
  query_n :: "string option"
  content_type :: "string option"
  content_length :: "string option"
  x_forwarded_proto :: "string option"
  host :: "string option"

type_synonym rid = nat

text \<open>
  \<open>ReqRes\<close> pairs a request with its response. The server compares these objects by
  identity (\<open>===\<close>, line 566); \<open>ident\<close> is that identity, allotted afresh to each
  arriving request.
\<close>

record ReqRes =
  ident :: rid
  req :: request

text \<open>
  \<open>Pipe\<close>: the fields \<open>sender\<close> and \<open>receivers\<close> of the source, prefixed here because
  \<open>UnestablishedPipe\<close> has fields of the same names.
\<close>

record Pipe =
  pipe_sender :: ReqRes
  pipe_receivers :: "ReqRes list"

text \<open>
  \<open>ReqResAndUnsubscribe\<close>: the closure \<open>unsubscribeCloseListener\<close> of the source is
  determined by the request it belongs to; it is the function of that name below.
\<close>

record ReqResAndUnsubscribe =
  reqRes :: ReqRes

record UnestablishedPipe =
  sender :: "ReqResAndUnsubscribe option"
  receivers :: "ReqResAndUnsubscribe list"
  nReceivers :: int

datatype removerType = SenderT | ReceiverT

text \<open>\<open>multiparty.Part\<close>, as far as \<open>runPipe\<close> reads it.\<close>

record part =
  byteCount :: "nat option"
  part_content_type :: "string option"

text \<open>
  Every call the server makes on a request, a response or a connection is recorded, in
  order, as an effect. \<open>PipeTo s r\<close> stands for the two \<open>pipe\<close> calls that connect the
  source of sender \<open>s\<close> through a pass-through stream to the response of receiver \<open>r\<close>.
  Calls of \<open>console.log\<close> are left out.
\<close>

datatype effect =
    ResWriteHead rid nat "(string \<times> string) list"
  | ResWrite rid string
  | ResEnd rid string
  | ReqOnceClose rid
  | ReqRemoveCloseListener rid
  | FormParse rid
  | PipeTo rid rid
  | Unpipe rid rid
  | ReqConnectionDestroy rid
  | ResConnectionDestroy rid

text \<open>
  A call of \<open>runPipe\<close> lives on in its event handlers. \<open>AwaitingPart\<close>: the call is
  suspended at \<open>await\<close> (line 297) and no handler is installed yet. \<open>Streaming part\<close>:
  the handlers of lines 357-391 are installed; the source stream \<open>senderData\<close> is the
  sender's request when \<open>part\<close> is \<open>None\<close>, the multipart part otherwise.
\<close>

datatype phase = AwaitingPart | Streaming "part option"

record transfer =
  tpath :: string
  tpipe :: Pipe
  phase :: phase
  closeCount :: nat

text \<open>
  The server object (lines 208-209) with the listeners and handlers that hold on to it:
  \<open>closeListeners\<close> maps a request to the \<open>closeListener\<close> closure installed on it by
  \<open>createSenderOrReceiver\<close> (its captured \<open>removerType\<close> and \<open>reqPath\<close>).
\<close>

record server =
  pathToEstablished :: "string \<rightharpoonup> bool"
  pathToUnestablishedPipe :: "string \<rightharpoonup> UnestablishedPipe"
  nextId :: nat
  closeListeners :: "rid \<rightharpoonup> removerType \<times> string"
  transfers :: "transfer list"
  effects :: "effect list"

text \<open>
  What the server is started with: the argument \<open>useHttps\<close> of \<open>generateHandler\<close> and the
  version of the package (line 16). The flag \<open>enableLog\<close> only guards calls of
  \<open>console.log\<close> and is left out with them.
\<close>

record config =
  useHttps :: bool
  VERSION :: string

definition emit :: "effect \<Rightarrow> server \<Rightarrow> server" where
  "emit e s = s\<lparr>effects := effects s @ [e]\<rparr>"

definition init :: server where
  "init = \<lparr>pathToEstablished = Map.empty, pathToUnestablishedPipe = Map.empty, nextId = 0,
            closeListeners = Map.empty, transfers = [], effects = []\<rparr>"

section \<open>Static pages (lines 72-193)\<close>

definition RESERVED_PATHS :: "string list" where
  "RESERVED_PATHS = [''/'', ''/version'', ''/help'']"

definition indexPage :: string where
  \<open>indexPage = unlines
   [''<html>'',
    ''<head>'',
    ''  <title>Piping</title>'',
    ''  <meta name="viewport" content="width=device-width,initial-scale=1">'',
    ''  <style>'',
    ''    h3 {'',
    ''      margin-top: 2em;'',
    ''      margin-bottom: 0.5em;'',
    ''    }'',
    ''  </style>'',
    ''</head>'',
    ''<body>'',
    ''  <h1>Piping</h1>'',
    ''  Streaming file sending/receiving'',
    ''  <form method="POST" id="file_form" enctype="multipart/form-data">'',
    ''    <h3>Step 1: Choose a file or text</h3>'',
    [],
    ''    <input type="checkbox" id="inputMode" onchange="toggleInputMode()">: <b>Text mode</b><br><br>'',
    [],
    ''    <input type="file" name="input_file">'',
    ''    <textarea type="text" name="input_text" placeholder="Input text" cols="30" rows="10"></textarea>'',
    ''    <br>'',
    [],
    ''    <h3>Step 2: Write your secret path</h3>'',
    ''    (e.g. "abcd1234", "mysecret.png?n=3")<br>'',
    ''    <input id="secret_path" placeholder="Secret path" size="50"><br>'',
    ''    <h3>Step 3: Click the submit button</h3>'',
    ''    <input type="submit">'',
    ''  </form>'',
    ''  <hr>'',
    ''  Command-line usage:'',
    ''  <a href="https://github.com/nwtgck/piping-server#readme">'',
    ''    https://github.com/nwtgck/piping-server#readme'',
    ''  </a><br>'',
    ''  <script>'',
    ''    // Set secret path action routing'',
    ''    (function () {'',
    ''      var fileForm = document.getElementById("file_form");'',
    ''      var secretPathInput = document.getElementById("secret_path");'',
    ''      secretPathInput.onkeyup = function(){'',
    ''        fileForm.action = "/" + secretPathInput.value;'',
    ''      };'',
    ''    })();'',
    [],
    ''    // Toggle input mode: file or text'',
    ''    var toggleInputMode = (function () {'',
    ''      var fileInput   = document.getElementsByName("input_file")[0];'',
    ''      var textInput   = document.getElementsByName("input_text")[0];'',
    ''      var activeInput = fileInput;'',
    ''      var deactivatedInput = textInput;'',
    [],
    (''      // Set inputs'' @ sq @ '' functionality and visibility''),
    ''      function setInputs() {'',
    ''        activeInput.disabled = false;'',
    ''        activeInput.style.display = null;'',
    [],
    ''        deactivatedInput.disabled = true;'',
    ''        deactivatedInput.style.display = "none";'',
    ''      }'',
    ''      setInputs();'',
    [],
    ''      // Body of toggleInputMode'',
    ''      function toggle() {'',
    ''        // Swap inputs'',
    ''        var tmpInput     = activeInput;'',
    ''        activeInput      = deactivatedInput;'',
    ''        deactivatedInput = tmpInput;'',
    ''        setInputs();'',
    ''      }'',
    ''      return toggle;'',
    ''    })();'',
    ''  </script>'',
    ''</body>'',
    ''</html>'']\<close>

definition generateHelpPage :: "string \<Rightarrow> string \<Rightarrow> string" where
  \<open>generateHelpPage version url = unlines
   [''Help for piping-server '' @ version,
    ''(Repository: https://github.com/nwtgck/piping-server)'',
    [],
    ''======= Get  ======='',
    ''curl '' @ url @ ''/mypath'',
    [],
    ''======= Send ======='',
    ''# Send a file'',
    ''curl -T myfile '' @ url @ ''/mypath'',
    [],
    ''# Send a text'',
    (''echo '' @ sq @ ''hello!'' @ sq @ '' | curl -T - '') @ url @ ''/mypath'',
    [],
    ''# Send a directory (zip)'',
    ''zip -q -r - ./mydir | curl -T - '' @ url @ ''/mypath'',
    [],
    ''# Send a directory (tar.gz)'',
    ''tar zfcp - ./mydir | curl -T - '' @ url @ ''/mypath'',
    [],
    ''# Encryption'',
    ''## Send'',
    ''cat myfile | openssl aes-256-cbc | curl -T - '' @ url @ ''/mypath'',
    ''## Get'',
    ''curl '' @ url @ ''/mypath | openssl aes-256-cbc -d'']\<close>

section \<open>Establishment (lines 39-57, 526-600)\<close>

text \<open>
  \<open>createSenderOrReceiver\<close>: the \<open>closeListener\<close> closure is installed on the request
  with \<open>req.once("close", ...)\<close> and the participant is returned.
\<close>

definition createSenderOrReceiver ::
    "removerType \<Rightarrow> ReqRes \<Rightarrow> string \<Rightarrow> server \<Rightarrow> ReqResAndUnsubscribe \<times> server" where
  "createSenderOrReceiver rt receiverReqRes path s =
     (\<lparr>reqRes = receiverReqRes\<rparr>,
      emit (ReqOnceClose (ident receiverReqRes))
        (s\<lparr>closeListeners := (closeListeners s)(ident receiverReqRes \<mapsto> (rt, path))\<rparr>))"

text \<open>\<open>unsubscribeCloseListener\<close> (lines 593-595): \<open>req.removeListener("close", closeListener)\<close>.\<close>

definition unsubscribeCloseListener :: "ReqResAndUnsubscribe \<Rightarrow> server \<Rightarrow> server" where
  "unsubscribeCloseListener r s =
     emit (ReqRemoveCloseListener (ident (reqRes r)))
       (s\<lparr>closeListeners := (closeListeners s)(ident (reqRes r) := None)\<rparr>)"

text \<open>
  \<open>getPipeIfEstablished\<close>: the side effect of the \<open>map\<close> over the receivers is threaded
  through the server state.
\<close>

definition getPipeIfEstablished :: "UnestablishedPipe \<Rightarrow> server \<Rightarrow> Pipe option \<times> server" where
  "getPipeIfEstablished p s =
     (case sender p of
        Some sd \<Rightarrow>
          if int (length (receivers p)) = nReceivers p
          then (Some \<lparr>pipe_sender = reqRes sd, pipe_receivers = map reqRes (receivers p)\<rparr>,
                fold unsubscribeCloseListener (receivers p) s)
          else (None, s)
      | None \<Rightarrow> (None, s))"

text \<open>\<open>Array.prototype.findIndex\<close>; \<open>None\<close> is the result \<open>-1\<close>.\<close>

fun findIndex :: "('a \<Rightarrow> bool) \<Rightarrow> 'a list \<Rightarrow> nat option" where
  "findIndex P [] = None"
| "findIndex P (x # xs) =
     (if P x then Some 0 else (case findIndex P xs of None \<Rightarrow> None | Some i \<Rightarrow> Some (Suc i)))"

text \<open>
  \<open>closeListener\<close> (lines 545-589), the closure of a participant with identity \<open>me\<close>.
  The record is mutated in place; here it is written back under its key.
\<close>

definition closeListener :: "removerType \<Rightarrow> rid \<Rightarrow> string \<Rightarrow> server \<Rightarrow> server" where
  "closeListener rt me path s =
     (case pathToUnestablishedPipe s path of
        None \<Rightarrow> s
      | Some unestablishedPipe \<Rightarrow>
          (let (removed, up) =
                 (case rt of
                    SenderT \<Rightarrow>
                      if sender unestablishedPipe \<noteq> None
                      then (True, unestablishedPipe\<lparr>sender := None\<rparr>)
                      else (False, unestablishedPipe)
                  | ReceiverT \<Rightarrow>
                      (case findIndex (\<lambda>r. ident (reqRes r) = me) (receivers unestablishedPipe) of
                         Some idx \<Rightarrow>
                           (True, unestablishedPipe\<lparr>receivers :=
                              take idx (receivers unestablishedPipe) @
                              drop (Suc idx) (receivers unestablishedPipe)\<rparr>)
                       | None \<Rightarrow> (False, unestablishedPipe)));
               s1 = s\<lparr>pathToUnestablishedPipe := (pathToUnestablishedPipe s)(path \<mapsto> up)\<rparr>
           in if removed \<and> length (receivers up) = 0 \<and> sender up = None
              then s1\<lparr>pathToUnestablishedPipe := (pathToUnestablishedPipe s1)(path := None)\<rparr>
              else s1))"

section \<open>The transfer engine (lines 278-392)\<close>

definition isMultipart :: "ReqRes \<Rightarrow> bool" where
  "isMultipart sd =
     str_includes (case content_type (req sd) of None \<Rightarrow> [] | Some v \<Rightarrow> v) ''multipart/form-data''"

text \<open>The headers written to a receiver (lines 324-349).\<close>

definition receiverHeaders :: "ReqRes \<Rightarrow> part option \<Rightarrow> (string \<times> string) list" where
  "receiverHeaders sd pt =
     (case pt of
        None \<Rightarrow>
          (case content_length (req sd) of None \<Rightarrow> [] | Some v \<Rightarrow> [(''Content-Length'', v)]) @
          (case content_type (req sd) of None \<Rightarrow> [] | Some v \<Rightarrow> [(''Content-Type'', v)])
      | Some p \<Rightarrow>
          (case byteCount p of None \<Rightarrow> [] | Some v \<Rightarrow> [(''Content-Length'', showNat v)]) @
          (case part_content_type p of None \<Rightarrow> [] | Some v \<Rightarrow> [(''Content-Type'', v)]))"

text \<open>One turn of the loop of lines 310-369, for one receiver.\<close>

definition connectReceiver :: "ReqRes \<Rightarrow> part option \<Rightarrow> ReqRes \<Rightarrow> server \<Rightarrow> server" where
  "connectReceiver sd pt receiver s =
     emit (PipeTo (ident sd) (ident receiver))
       (emit (ResWriteHead (ident receiver) 200 (receiverHeaders sd pt)) s)"

text \<open>\<open>runPipe\<close> from line 306 on, once \<open>part\<close> is known.\<close>

definition startStreaming :: "part option \<Rightarrow> transfer \<Rightarrow> server \<Rightarrow> transfer \<times> server" where
  "startStreaming pt t s =
     (t\<lparr>phase := Streaming pt, closeCount := 0\<rparr>,
      fold (connectReceiver (pipe_sender (tpipe t)) pt) (pipe_receivers (tpipe t)) s)"

definition runPipe :: "string \<Rightarrow> Pipe \<Rightarrow> server \<Rightarrow> server" where
  "runPipe path pipe s =
     (let s1 = s\<lparr>pathToEstablished := (pathToEstablished s)(path \<mapsto> True)\<rparr>;
          s2 = s1\<lparr>pathToUnestablishedPipe := (pathToUnestablishedPipe s1)(path := None)\<rparr>;
          t = \<lparr>tpath = path, tpipe = pipe, phase = AwaitingPart, closeCount = 0\<rparr>
      in if isMultipart (pipe_sender pipe)
         then (let s3 = emit (FormParse (ident (pipe_sender pipe))) s2
               in s3\<lparr>transfers := transfers s3 @ [t]\<rparr>)
         else (let (t1, s3) = startStreaming None t s2
               in s3\<lparr>transfers := transfers s3 @ [t1]\<rparr>))"

text \<open>\<open>closeReceiver\<close> (lines 312-322), the closure of one receiver of transfer \<open>t\<close>.\<close>

definition closeReceiver :: "ReqRes \<Rightarrow> transfer \<Rightarrow> server \<Rightarrow> transfer \<times> server" where
  "closeReceiver receiver t s =
     (let t1 = t\<lparr>closeCount := closeCount t + 1\<rparr>;
          sd = ident (pipe_sender (tpipe t));
          s1 = emit (Unpipe sd (ident receiver)) s
      in if closeCount t1 = length (pipe_receivers (tpipe t))
         then (t1,
               emit (ReqConnectionDestroy sd)
                 ((emit (ResEnd sd (''[INFO] All receiver(s) was/were closed halfway.'' @ nl)) s1)
                    \<lparr>pathToEstablished := (pathToEstablished s1)(tpath t := None)\<rparr>))
         else (t1, s1))"

text \<open>
  The handlers \<open>receiver.req.on("close")\<close> and \<open>receiver.req.on("error")\<close> of a streaming
  transfer, run for an event emitted on the request \<open>me\<close>.
\<close>

fun receiverHandlers :: "rid \<Rightarrow> ReqRes list \<Rightarrow> transfer \<Rightarrow> server \<Rightarrow> transfer \<times> server" where
  "receiverHandlers me [] t s = (t, s)"
| "receiverHandlers me (r # rs) t s =
     (if ident r = me
      then (let (t1, s1) = closeReceiver r t s in receiverHandlers me rs t1 s1)
      else receiverHandlers me rs t s)"

text \<open>The handlers on \<open>senderData\<close> (lines 371-391).\<close>

definition senderOnClose :: "transfer \<Rightarrow> server \<Rightarrow> server" where
  "senderOnClose t s = fold (\<lambda>r. emit (ResConnectionDestroy (ident r))) (pipe_receivers (tpipe t)) s"

definition senderOnEnd :: "transfer \<Rightarrow> server \<Rightarrow> server" where
  "senderOnEnd t s =
     (emit (ResEnd (ident (pipe_sender (tpipe t))) (''[INFO] Sending Successful!'' @ nl)) s)
       \<lparr>pathToEstablished := (pathToEstablished s)(tpath t := None)\<rparr>"

definition senderOnError :: "transfer \<Rightarrow> server \<Rightarrow> server" where
  "senderOnError t s =
     (emit (ResEnd (ident (pipe_sender (tpipe t))) (''[ERROR] Sending Failed.'' @ nl)) s)
       \<lparr>pathToEstablished := (pathToEstablished s)(tpath t := None)\<rparr>"

section \<open>Request handling (lines 197-276, 394-524)\<close>

text \<open>\<open>getNReceivers\<close> (lines 201-207), on the query parameter \<open>n\<close> of the request.\<close>

definition getNReceivers :: "request \<Rightarrow> int" where
  "getNReceivers rq = nanOrElse (case query_n rq of None \<Rightarrow> None | Some v \<Rightarrow> parseInt10 v) 1"

text \<open>\<open>res.writeHead(code); res.end(body)\<close>.\<close>

definition reply :: "rid \<Rightarrow> nat \<Rightarrow> string \<Rightarrow> server \<Rightarrow> server" where
  "reply res code body s = emit (ResEnd res body) (emit (ResWriteHead res code []) s)"

definition msgBadCount :: "int \<Rightarrow> string" where
  "msgBadCount n = ''[ERROR] n should > 0, but n = '' @ showInt n @ ''.'' @ nl"

definition msgSenderEstablished :: "string \<Rightarrow> string" where
  "msgSenderEstablished path =
     ''[ERROR] Connection on '' @ sq @ path @ sq @ '' has been established already.'' @ nl"

definition msgReceiverEstablished :: "string \<Rightarrow> string" where
  "msgReceiverEstablished path =
     ''Error: Connection on '' @ sq @ path @ sq @ '' has been established already.'' @ nl"

definition msgWaiting :: "int \<Rightarrow> string" where
  "msgWaiting n = ''[INFO] Waiting for '' @ showInt n @ '' receiver(s)...'' @ nl"

definition msgConnected :: "nat \<Rightarrow> string" where
  "msgConnected k = ''[INFO] '' @ showNat k @ '' receiver(s) has/have been connected.'' @ nl"

definition msgMismatch :: "int \<Rightarrow> int \<Rightarrow> string" where
  "msgMismatch expected n =
     ''Error: The number of receivers should be '' @ showInt expected @ '' but '' @ showInt n @ ''.'' @ nl"

definition msgAnotherSender :: "string \<Rightarrow> string" where
  "msgAnotherSender path =
     ''[ERROR] Another sender has been registered on '' @ sq @ path @ sq @ ''.'' @ nl"

definition msgStartWith :: "nat \<Rightarrow> string" where
  "msgStartWith k = ''[INFO] Start sending with '' @ showNat k @ '' receiver(s)!'' @ nl"

definition msgReserved :: "string \<Rightarrow> string" where
  "msgReserved path =
     ''[ERROR] Cannot send to a reserved path '' @ sq @ path @ sq @ ''. (e.g. '' @ sq @
     ''/mypath123'' @ sq @ '')'' @ nl"

definition handleSender :: "ReqRes \<Rightarrow> string \<Rightarrow> server \<Rightarrow> server" where
  "handleSender rr path s =
     (let n = getNReceivers (req rr); res = ident rr
      in if n \<le> 0 then reply res 400 (msgBadCount n) s
         else if pathToEstablished s path \<noteq> None then reply res 400 (msgSenderEstablished path) s
         else (case pathToUnestablishedPipe s path of
                 Some unestablishedPipe \<Rightarrow>
                   if sender unestablishedPipe = None
                   then if n = nReceivers unestablishedPipe
                        then (let (sd, s1) = createSenderOrReceiver SenderT rr path s;
                                  up = unestablishedPipe\<lparr>sender := Some sd\<rparr>;
                                  s2 = s1\<lparr>pathToUnestablishedPipe :=
                                            (pathToUnestablishedPipe s1)(path \<mapsto> up)\<rparr>;
                                  s3 = emit (ResWrite res (msgWaiting n)) s2;
                                  s4 = emit (ResWrite res (msgConnected (length (receivers up)))) s3;
                                  (pipe, s5) = getPipeIfEstablished up s4
                              in case pipe of
                                   Some p \<Rightarrow>
                                     runPipe path p (emit (ResWrite res (''Start sending!'' @ nl)) s5)
                                 | None \<Rightarrow> s5)
                        else reply res 400 (msgMismatch (nReceivers unestablishedPipe) n) s
                   else reply res 400 (msgAnotherSender path) s
               | None \<Rightarrow>
                   (let s1 = emit (ResWrite res (msgWaiting n)) s;
                        (sd, s2) = createSenderOrReceiver SenderT rr path s1
                    in s2\<lparr>pathToUnestablishedPipe := (pathToUnestablishedPipe s2)
                          (path \<mapsto> \<lparr>sender = Some sd, receivers = [], nReceivers = n\<rparr>)\<rparr>)))"

definition handleReceiver :: "ReqRes \<Rightarrow> string \<Rightarrow> server \<Rightarrow> server" where
  "handleReceiver rr path s =
     (let n = getNReceivers (req rr); res = ident rr
      in if n \<le> 0 then reply res 400 (msgBadCount n) s
         else if pathToEstablished s path \<noteq> None then reply res 400 (msgReceiverEstablished path) s
         else (case pathToUnestablishedPipe s path of
                 Some unestablishedPipe \<Rightarrow>
                   if n = nReceivers unestablishedPipe
                   then if int (length (receivers unestablishedPipe)) < nReceivers unestablishedPipe
                        then (let (receiver, s1) = createSenderOrReceiver ReceiverT rr path s;
                                  up = unestablishedPipe\<lparr>receivers :=
                                         receivers unestablishedPipe @ [receiver]\<rparr>;
                                  s2 = s1\<lparr>pathToUnestablishedPipe :=
                                            (pathToUnestablishedPipe s1)(path \<mapsto> up)\<rparr>;
                                  s3 = (case sender up of
                                          Some sd \<Rightarrow>
                                            emit (ResWrite (ident (reqRes sd))
                                                    (''[INFO] A receiver was connected.'' @ nl)) s2
                                        | None \<Rightarrow> s2);
                                  (pipe, s4) = getPipeIfEstablished up s3
                              in case pipe of
                                   Some p \<Rightarrow>
                                     runPipe path p
                                       (emit (ResWrite (ident (pipe_sender p))
                                                (msgStartWith (length (pipe_receivers p)))) s4)
                                 | None \<Rightarrow> s4)
                        else reply res 400 (''Error: The number of receivers has reached limits.'' @ nl) s
                   else reply res 400 (msgMismatch (nReceivers unestablishedPipe) n) s
               | None \<Rightarrow>
                   (let (receiver, s1) = createSenderOrReceiver ReceiverT rr path s
                    in s1\<lparr>pathToUnestablishedPipe := (pathToUnestablishedPipe s1)
                          (path \<mapsto> \<lparr>sender = None, receivers = [receiver], nReceivers = n\<rparr>)\<rparr>)))"

text \<open>The base URL of the help page (lines 252-262).\<close>

definition helpUrl :: "config \<Rightarrow> request \<Rightarrow> string" where
  "helpUrl cfg rq =
     (let xForwardedProtoIsHttps =
            (case x_forwarded_proto rq of None \<Rightarrow> False | Some proto \<Rightarrow> str_includes proto ''https'');
          scheme = (if useHttps cfg \<or> xForwardedProtoIsHttps then ''https'' else ''http'');
          hostname = (case host rq of None \<Rightarrow> ''hostname'' | Some h \<Rightarrow> if h = [] then ''hostname'' else h)
      in scheme @ ''://'' @ hostname)"

text \<open>
  The handler that \<open>generateHandler\<close> returns (lines 219-275), called with a new request:
  the request and its response get a fresh identity.
\<close>

definition handler :: "config \<Rightarrow> request \<Rightarrow> server \<Rightarrow> server" where
  "handler cfg rq s =
     (let rr = \<lparr>ident = nextId s, req = rq\<rparr>;
          res = ident rr;
          s0 = s\<lparr>nextId := Suc (nextId s)\<rparr>;
          path = reqPath rq
      in if reqMethod rq = ''POST'' \<or> reqMethod rq = ''PUT''
         then (if path \<in> set RESERVED_PATHS
               then reply res 400 (msgReserved path) s0
               else handleSender rr path s0)
         else if reqMethod rq = ''GET''
         then (if path = ''/'' then emit (ResEnd res indexPage) s0
               else if path = ''/version'' then emit (ResEnd res (VERSION cfg @ nl)) s0
               else if path = ''/help''
               then emit (ResEnd res (generateHelpPage (VERSION cfg) (helpUrl cfg rq))) s0
               else handleReceiver rr path s0)
         else emit (ResEnd res (''Error: Unsupported method: '' @ reqMethod rq @ nl)) s0)"

section \<open>Events\<close>

text \<open>
  What the runtime can deliver to the server: a new request; \<open>close\<close>, \<open>error\<close> or
  \<open>end\<close> emitted on a request; the first part of a multipart form (\<open>form.once("part")\<close>);
  \<open>close\<close>, \<open>end\<close> or \<open>error\<close> emitted on that part. The requests and parts are named by
  the identity of their request.
\<close>

datatype event =
    Request request
  | ReqClose rid
  | ReqError rid
  | ReqEnd rid
  | FormPart rid part
  | PartClose rid
  | PartEnd rid
  | PartError rid

text \<open>Runs the handlers of every transfer, in the order the transfers were started.\<close>

fun forTransfers ::
    "(transfer \<Rightarrow> server \<Rightarrow> transfer \<times> server) \<Rightarrow> transfer list \<Rightarrow> server \<Rightarrow> transfer list \<times> server" where
  "forTransfers h [] s = ([], s)"
| "forTransfers h (t # ts) s =
     (let (t1, s1) = h t s; (ts1, s2) = forTransfers h ts s1 in (t1 # ts1, s2))"

definition applyTransfers :: "(transfer \<Rightarrow> server \<Rightarrow> transfer \<times> server) \<Rightarrow> server \<Rightarrow> server" where
  "applyTransfers h s = (let (ts, s1) = forTransfers h (transfers s) s in s1\<lparr>transfers := ts\<rparr>)"

text \<open>The handlers of one transfer for an event on the request \<open>me\<close>.\<close>

definition onReqClose :: "rid \<Rightarrow> transfer \<Rightarrow> server \<Rightarrow> transfer \<times> server" where
  "onReqClose me t s =
     (case phase t of
        AwaitingPart \<Rightarrow> (t, s)
      | Streaming pt \<Rightarrow>
          (let (t1, s1) = receiverHandlers me (pipe_receivers (tpipe t)) t s
           in (t1, if pt = None \<and> ident (pipe_sender (tpipe t)) = me then senderOnClose t1 s1 else s1)))"

definition onReqError :: "rid \<Rightarrow> transfer \<Rightarrow> server \<Rightarrow> transfer \<times> server" where
  "onReqError me t s =
     (case phase t of
        AwaitingPart \<Rightarrow> (t, s)
      | Streaming pt \<Rightarrow>
          (let (t1, s1) = receiverHandlers me (pipe_receivers (tpipe t)) t s
           in (t1, if pt = None \<and> ident (pipe_sender (tpipe t)) = me then senderOnError t1 s1 else s1)))"

definition onReqEnd :: "rid \<Rightarrow> transfer \<Rightarrow> server \<Rightarrow> transfer \<times> server" where
  "onReqEnd me t s =
     (case phase t of
        AwaitingPart \<Rightarrow> (t, s)
      | Streaming pt \<Rightarrow>
          (t, if pt = None \<and> ident (pipe_sender (tpipe t)) = me then senderOnEnd t s else s))"

definition onFormPart :: "rid \<Rightarrow> part \<Rightarrow> transfer \<Rightarrow> server \<Rightarrow> transfer \<times> server" where
  "onFormPart me p t s =
     (case phase t of
        AwaitingPart \<Rightarrow> if ident (pipe_sender (tpipe t)) = me then startStreaming (Some p) t s else (t, s)
      | Streaming pt \<Rightarrow> (t, s))"

definition onPart :: "(transfer \<Rightarrow> server \<Rightarrow> server) \<Rightarrow> rid \<Rightarrow> transfer \<Rightarrow> server \<Rightarrow> transfer \<times> server" where
  "onPart h me t s =
     (case phase t of
        AwaitingPart \<Rightarrow> (t, s)
      | Streaming pt \<Rightarrow> (t, if pt \<noteq> None \<and> ident (pipe_sender (tpipe t)) = me then h t s else s))"

text \<open>
  A \<open>close\<close> on a request first runs the \<open>closeListener\<close> installed with \<open>once\<close> (if it is
  still installed, and then no more), then the handlers the transfers have installed.
\<close>

definition fireCloseListener :: "rid \<Rightarrow> server \<Rightarrow> server" where
  "fireCloseListener me s =
     (case closeListeners s me of
        None \<Rightarrow> s
      | Some (rt, path) \<Rightarrow> closeListener rt me path (s\<lparr>closeListeners := (closeListeners s)(me := None)\<rparr>))"

fun step :: "config \<Rightarrow> event \<Rightarrow> server \<Rightarrow> server" where
  "step cfg (Request rq) s = handler cfg rq s"
| "step cfg (ReqClose me) s = applyTransfers (onReqClose me) (fireCloseListener me s)"
| "step cfg (ReqError me) s = applyTransfers (onReqError me) s"
| "step cfg (ReqEnd me) s = applyTransfers (onReqEnd me) s"
| "step cfg (FormPart me p) s = applyTransfers (onFormPart me p) s"
| "step cfg (PartClose me) s = applyTransfers (onPart senderOnClose me) s"
| "step cfg (PartEnd me) s = applyTransfers (onPart senderOnEnd me) s"
| "step cfg (PartError me) s = applyTransfers (onPart senderOnError me) s"

text \<open>The server after a sequence of events, from its initial state.\<close>

definition run :: "config \<Rightarrow> event list \<Rightarrow> server" where
  "run cfg evs = fold (step cfg) evs init"

section \<open>Notions used in the statements\<close>


text \<open>
  Observations. \<open>emitted s s'\<close> are the calls made between the states \<open>s\<close> and \<open>s'\<close>;
  \<open>responseCalls me\<close> keeps the calls on the response of the request \<open>me\<close>;
  \<open>statusCode me\<close> is the status that response goes out with: the one of the last
  \<open>writeHead\<close>, and 200, the default of a Node.js response, when there is none.
  \<open>newTransfers s s'\<close> are the calls of \<open>runPipe\<close> made between \<open>s\<close> and \<open>s'\<close>, and
  \<open>started\<close> says that there is one.
\<close>

definition emitted :: "server \<Rightarrow> server \<Rightarrow> effect list" where
  "emitted s s' = drop (length (effects s)) (effects s')"

fun onResponse :: "rid \<Rightarrow> effect \<Rightarrow> bool" where
  "onResponse me (ResWriteHead r c h) = (r = me)"
| "onResponse me (ResWrite r b) = (r = me)"
| "onResponse me (ResEnd r b) = (r = me)"
| "onResponse me e = False"

definition responseCalls :: "rid \<Rightarrow> effect list \<Rightarrow> effect list" where
  "responseCalls me es = filter (onResponse me) es"

fun writtenStatus :: "rid \<Rightarrow> effect list \<Rightarrow> nat option" where
  "writtenStatus me [] = None"
| "writtenStatus me (ResWriteHead r c h # es) =
     (if r = me then (case writtenStatus me es of None \<Rightarrow> Some c | Some c' \<Rightarrow> Some c')
      else writtenStatus me es)"
| "writtenStatus me (e # es) = writtenStatus me es"

definition statusCode :: "rid \<Rightarrow> effect list \<Rightarrow> nat" where
  "statusCode me es = (case writtenStatus me es of None \<Rightarrow> 200 | Some c \<Rightarrow> c)"

definition newTransfers :: "server \<Rightarrow> server \<Rightarrow> transfer list" where
  "newTransfers s s' = drop (length (transfers s)) (transfers s')"

definition started :: "server \<Rightarrow> server \<Rightarrow> bool" where
  "started s s' = (newTransfers s s' \<noteq> [])"

text \<open>
  The establishment predicate, in the words of the specification: the record has a sender
  and as many receivers as it expects.
\<close>

definition establishment_predicate :: "UnestablishedPipe \<Rightarrow> bool" where
  "establishment_predicate p = (sender p \<noteq> None \<and> int (length (receivers p)) = nReceivers p)"

text \<open>
  The record of a path right after the arriving participant has been registered:
  \<open>registeredSender\<close> follows lines 404-423 and 447-456 of \<open>handleSender\<close>,
  \<open>registeredReceiver\<close> lines 471-489 and 515-521 of \<open>handleReceiver\<close>; \<open>None\<close> when the
  request is rejected. \<open>registrationOutcome\<close> says what became of such a record \<open>up\<close>
  between \<open>s\<close> and \<open>s'\<close>: handed to one new transfer, with the record removed and the flag
  set, when it satisfies the predicate, and kept under its path otherwise.
\<close>

definition registeredSender :: "ReqRes \<Rightarrow> string \<Rightarrow> server \<Rightarrow> UnestablishedPipe option" where
  "registeredSender rr path s =
     (if getNReceivers (req rr) \<le> 0 \<or> pathToEstablished s path \<noteq> None then None
      else (case pathToUnestablishedPipe s path of
              Some up \<Rightarrow>
                if sender up = None \<and> getNReceivers (req rr) = nReceivers up
                then Some (up\<lparr>sender := Some \<lparr>reqRes = rr\<rparr>\<rparr>)
                else None
            | None \<Rightarrow>
                Some \<lparr>sender = Some \<lparr>reqRes = rr\<rparr>, receivers = [],
                      nReceivers = getNReceivers (req rr)\<rparr>))"

definition registeredReceiver :: "ReqRes \<Rightarrow> string \<Rightarrow> server \<Rightarrow> UnestablishedPipe option" where
  "registeredReceiver rr path s =
     (if getNReceivers (req rr) \<le> 0 \<or> pathToEstablished s path \<noteq> None then None
      else (case pathToUnestablishedPipe s path of
              Some up \<Rightarrow>
                if getNReceivers (req rr) = nReceivers up \<and>
                   int (length (receivers up)) < nReceivers up
                then Some (up\<lparr>receivers := receivers up @ [\<lparr>reqRes = rr\<rparr>]\<rparr>)
                else None
            | None \<Rightarrow>
                Some \<lparr>sender = None, receivers = [\<lparr>reqRes = rr\<rparr>],
                      nReceivers = getNReceivers (req rr)\<rparr>))"

definition registrationOutcome :: "UnestablishedPipe \<Rightarrow> string \<Rightarrow> server \<Rightarrow> server \<Rightarrow> bool" where
  "registrationOutcome up path s s' =
     (if establishment_predicate up
      then (case newTransfers s s' of
              [t] \<Rightarrow> tpath t = path \<and> sender up = Some \<lparr>reqRes = pipe_sender (tpipe t)\<rparr> \<and>
                     pipe_receivers (tpipe t) = map reqRes (receivers up)
            | _ \<Rightarrow> False) \<and>
           pathToUnestablishedPipe s' path = None \<and> pathToEstablished s' path = Some True
      else newTransfers s s' = [] \<and> pathToUnestablishedPipe s' path = Some up \<and>
           pathToEstablished s' path = None)"

text \<open>The page served for a GET on a reserved path (lines 244-264).\<close>

definition staticPage :: "config \<Rightarrow> request \<Rightarrow> string" where
  "staticPage cfg rq =
     (if reqPath rq = ''/'' then indexPage
      else if reqPath rq = ''/version'' then VERSION cfg @ nl
      else generateHelpPage (VERSION cfg) (helpUrl cfg rq))"




text \<open>
  Invariants of the registry: the bounds on a record; no reserved path is a key; no path
  has both a record and a flag; the identities in the records are older than the next one.
\<close>

definition counts_ok :: "server \<Rightarrow> bool" where
  "counts_ok s =
     (\<forall>path up. pathToUnestablishedPipe s path = Some up \<longrightarrow>
        int (length (receivers up)) \<le> nReceivers up \<and> 1 \<le> nReceivers up)"

definition reserved_free :: "server \<Rightarrow> bool" where
  "reserved_free s =
     (\<forall>p \<in> set RESERVED_PATHS. pathToUnestablishedPipe s p = None \<and> pathToEstablished s p = None)"

definition disjoint_ok :: "server \<Rightarrow> bool" where
  "disjoint_ok s = (\<forall>p. pathToUnestablishedPipe s p \<noteq> None \<longrightarrow> pathToEstablished s p = None)"

definition fresh_ok :: "server \<Rightarrow> bool" where
  "fresh_ok s =
     (\<forall>path up. pathToUnestablishedPipe s path = Some up \<longrightarrow>
        (\<forall>r \<in> set (receivers up). ident (reqRes r) < nextId s) \<and>
        (\<forall>sd. sender up = Some sd \<longrightarrow> ident (reqRes sd) < nextId s))"

definition inv :: "server \<Rightarrow> bool" where
  "inv s = (counts_ok s \<and> reserved_free s \<and> disjoint_ok s \<and> fresh_ok s)"






text \<open>
  \<open>frame s s'\<close>: from \<open>s\<close> to \<open>s'\<close> the records, the close listeners and the next identity
  are unchanged and flags are at most cleared. The remaining definitions name the state
  after the steps of a registration that the handlers share.
\<close>

definition frame :: "server \<Rightarrow> server \<Rightarrow> bool" where
  "frame s s' =
     (pathToUnestablishedPipe s' = pathToUnestablishedPipe s \<and> nextId s' = nextId s \<and>
      closeListeners s' = closeListeners s \<and>
      (\<forall>p. pathToEstablished s' p = None \<or> pathToEstablished s' p = pathToEstablished s p))"

definition runPipeEffects :: "Pipe \<Rightarrow> effect list" where
  "runPipeEffects pipe =
     (if isMultipart (pipe_sender pipe) then [FormParse (ident (pipe_sender pipe))]
      else concat (map (\<lambda>r. [ResWriteHead (ident r) 200 (receiverHeaders (pipe_sender pipe) None),
                                PipeTo (ident (pipe_sender pipe)) (ident r)]) (pipe_receivers pipe)))"

definition senderJoined :: "ReqRes \<Rightarrow> string \<Rightarrow> UnestablishedPipe \<Rightarrow> server \<Rightarrow> server" where
  "senderJoined rr path up s =
     emit (ResWrite (ident rr) (msgConnected (length (receivers up))))
       (emit (ResWrite (ident rr) (msgWaiting (nReceivers up)))
          ((snd (createSenderOrReceiver SenderT rr path s))
             \<lparr>pathToUnestablishedPipe := (pathToUnestablishedPipe s)
                (path \<mapsto> up\<lparr>sender := Some \<lparr>reqRes = rr\<rparr>\<rparr>)\<rparr>))"

definition receiverJoined :: "ReqRes \<Rightarrow> string \<Rightarrow> UnestablishedPipe \<Rightarrow> server \<Rightarrow> server" where
  "receiverJoined rr path up s =
     (let s2 = (snd (createSenderOrReceiver ReceiverT rr path s))
                 \<lparr>pathToUnestablishedPipe := (pathToUnestablishedPipe s)
                    (path \<mapsto> up\<lparr>receivers := receivers up @ [\<lparr>reqRes = rr\<rparr>]\<rparr>)\<rparr>
      in case sender up of
           Some sd \<Rightarrow> emit (ResWrite (ident (reqRes sd)) (''[INFO] A receiver was connected.'' @ nl)) s2
         | None \<Rightarrow> s2)"

text \<open>A configuration and requests for the examples.\<close>

definition exampleConfig :: config where
  "exampleConfig = \<lparr>useHttps = False, VERSION = ''0.1.0''\<rparr>"

definition exampleRequest :: "string \<Rightarrow> string \<Rightarrow> string option \<Rightarrow> request" where
  "exampleRequest m p n =
     \<lparr>reqMethod = m, reqPath = p, query_n = n, content_type = None, content_length = None,
      x_forwarded_proto = None, host = None\<rparr>"

section \<open>What each operation changes\<close>

lemma emit_fields [simp]:
  "pathToEstablished (emit e s) = pathToEstablished s"
  "pathToUnestablishedPipe (emit e s) = pathToUnestablishedPipe s"
  "nextId (emit e s) = nextId s"
  "closeListeners (emit e s) = closeListeners s"
  "transfers (emit e s) = transfers s"
  "effects (emit e s) = effects s @ [e]"
  by (simp_all add: emit_def)

lemma reply_fields [simp]:
  "pathToEstablished (reply r c b s) = pathToEstablished s"
  "pathToUnestablishedPipe (reply r c b s) = pathToUnestablishedPipe s"
  "nextId (reply r c b s) = nextId s"
  "closeListeners (reply r c b s) = closeListeners s"
  "transfers (reply r c b s) = transfers s"
  "effects (reply r c b s) = effects s @ [ResWriteHead r c [], ResEnd r b]"
  by (simp_all add: reply_def)

lemma unsubscribe_fields [simp]:
  "pathToEstablished (unsubscribeCloseListener r s) = pathToEstablished s"
  "pathToUnestablishedPipe (unsubscribeCloseListener r s) = pathToUnestablishedPipe s"
  "nextId (unsubscribeCloseListener r s) = nextId s"
  "transfers (unsubscribeCloseListener r s) = transfers s"
  "effects (unsubscribeCloseListener r s) = effects s @ [ReqRemoveCloseListener (ident (reqRes r))]"
  "closeListeners (unsubscribeCloseListener r s) = (closeListeners s)(ident (reqRes r) := None)"
  by (simp_all add: unsubscribeCloseListener_def)

lemma fold_unsubscribe_fields [simp]:
  "pathToEstablished (fold unsubscribeCloseListener rs s) = pathToEstablished s"
  "pathToUnestablishedPipe (fold unsubscribeCloseListener rs s) = pathToUnestablishedPipe s"
  "nextId (fold unsubscribeCloseListener rs s) = nextId s"
  "transfers (fold unsubscribeCloseListener rs s) = transfers s"
  "effects (fold unsubscribeCloseListener rs s) =
     effects s @ map (\<lambda>r. ReqRemoveCloseListener (ident (reqRes r))) rs"
  by (induction rs arbitrary: s) simp_all


lemma connect_fields [simp]:
  "pathToEstablished (connectReceiver sd pt r s) = pathToEstablished s"
  "pathToUnestablishedPipe (connectReceiver sd pt r s) = pathToUnestablishedPipe s"
  "nextId (connectReceiver sd pt r s) = nextId s"
  "closeListeners (connectReceiver sd pt r s) = closeListeners s"
  "transfers (connectReceiver sd pt r s) = transfers s"
  "effects (connectReceiver sd pt r s) =
     effects s @ [ResWriteHead (ident r) 200 (receiverHeaders sd pt), PipeTo (ident sd) (ident r)]"
  by (simp_all add: connectReceiver_def)

lemma fold_connect_fields [simp]:
  "pathToEstablished (fold (connectReceiver sd pt) rs s) = pathToEstablished s"
  "pathToUnestablishedPipe (fold (connectReceiver sd pt) rs s) = pathToUnestablishedPipe s"
  "nextId (fold (connectReceiver sd pt) rs s) = nextId s"
  "closeListeners (fold (connectReceiver sd pt) rs s) = closeListeners s"
  "transfers (fold (connectReceiver sd pt) rs s) = transfers s"
  "effects (fold (connectReceiver sd pt) rs s) =
     effects s @ concat (map (\<lambda>r. [ResWriteHead (ident r) 200 (receiverHeaders sd pt),
                                       PipeTo (ident sd) (ident r)]) rs)"
  by (induction rs arbitrary: s) simp_all

lemma runPipe_fields [simp]:
  "pathToEstablished (runPipe path pipe s) = (pathToEstablished s)(path \<mapsto> True)"
  "pathToUnestablishedPipe (runPipe path pipe s) = (pathToUnestablishedPipe s)(path := None)"
  "nextId (runPipe path pipe s) = nextId s"
  "closeListeners (runPipe path pipe s) = closeListeners s"
  "effects (runPipe path pipe s) = effects s @ runPipeEffects pipe"
  "transfers (runPipe path pipe s) =
     transfers s @ [\<lparr>tpath = path, tpipe = pipe,
                      phase = (if isMultipart (pipe_sender pipe) then AwaitingPart else Streaming None),
                      closeCount = 0\<rparr>]"
  by (simp_all add: runPipe_def runPipeEffects_def startStreaming_def Let_def)

lemma create_fields [simp]:
  "fst (createSenderOrReceiver rt rr path s) = \<lparr>reqRes = rr\<rparr>"
  "pathToEstablished (snd (createSenderOrReceiver rt rr path s)) = pathToEstablished s"
  "pathToUnestablishedPipe (snd (createSenderOrReceiver rt rr path s)) = pathToUnestablishedPipe s"
  "nextId (snd (createSenderOrReceiver rt rr path s)) = nextId s"
  "transfers (snd (createSenderOrReceiver rt rr path s)) = transfers s"
  "effects (snd (createSenderOrReceiver rt rr path s)) = effects s @ [ReqOnceClose (ident rr)]"
  "closeListeners (snd (createSenderOrReceiver rt rr path s)) = (closeListeners s)(ident rr \<mapsto> (rt, path))"
  by (simp_all add: createSenderOrReceiver_def)

text \<open>The branches of \<open>handleSender\<close>.\<close>

lemma handleSender_bad_count:
  "getNReceivers (req rr) \<le> 0 \<Longrightarrow>
   handleSender rr path s = reply (ident rr) 400 (msgBadCount (getNReceivers (req rr))) s"
  by (simp add: handleSender_def)

lemma handleSender_established:
  "0 < getNReceivers (req rr) \<Longrightarrow> pathToEstablished s path \<noteq> None \<Longrightarrow>
   handleSender rr path s = reply (ident rr) 400 (msgSenderEstablished path) s"
  by (simp add: handleSender_def)

lemma handleSender_new:
  "0 < getNReceivers (req rr) \<Longrightarrow> pathToEstablished s path = None \<Longrightarrow>
   pathToUnestablishedPipe s path = None \<Longrightarrow>
   handleSender rr path s =
     (snd (createSenderOrReceiver SenderT rr path
             (emit (ResWrite (ident rr) (msgWaiting (getNReceivers (req rr)))) s)))
       \<lparr>pathToUnestablishedPipe := (pathToUnestablishedPipe s)
          (path \<mapsto> \<lparr>sender = Some \<lparr>reqRes = rr\<rparr>, receivers = [],
                       nReceivers = getNReceivers (req rr)\<rparr>)\<rparr>"
  by (simp add: handleSender_def Let_def createSenderOrReceiver_def)

lemma handleSender_another:
  "0 < getNReceivers (req rr) \<Longrightarrow> pathToEstablished s path = None \<Longrightarrow>
   pathToUnestablishedPipe s path = Some up \<Longrightarrow> sender up \<noteq> None \<Longrightarrow>
   handleSender rr path s = reply (ident rr) 400 (msgAnotherSender path) s"
  by (auto simp add: handleSender_def)

lemma handleSender_mismatch:
  "0 < getNReceivers (req rr) \<Longrightarrow> pathToEstablished s path = None \<Longrightarrow>
   pathToUnestablishedPipe s path = Some up \<Longrightarrow> sender up = None \<Longrightarrow>
   getNReceivers (req rr) \<noteq> nReceivers up \<Longrightarrow>
   handleSender rr path s = reply (ident rr) 400 (msgMismatch (nReceivers up) (getNReceivers (req rr))) s"
  by (simp add: handleSender_def)

lemma handleSender_join_wait:
  "0 < getNReceivers (req rr) \<Longrightarrow> pathToEstablished s path = None \<Longrightarrow>
   pathToUnestablishedPipe s path = Some up \<Longrightarrow> sender up = None \<Longrightarrow>
   getNReceivers (req rr) = nReceivers up \<Longrightarrow> int (length (receivers up)) \<noteq> nReceivers up \<Longrightarrow>
   handleSender rr path s = senderJoined rr path up s"
  by (simp add: handleSender_def Let_def createSenderOrReceiver_def getPipeIfEstablished_def
      senderJoined_def)

lemma handleSender_join_start:
  "0 < getNReceivers (req rr) \<Longrightarrow> pathToEstablished s path = None \<Longrightarrow>
   pathToUnestablishedPipe s path = Some up \<Longrightarrow> sender up = None \<Longrightarrow>
   getNReceivers (req rr) = nReceivers up \<Longrightarrow> int (length (receivers up)) = nReceivers up \<Longrightarrow>
   handleSender rr path s =
     runPipe path \<lparr>pipe_sender = rr, pipe_receivers = map reqRes (receivers up)\<rparr>
       (emit (ResWrite (ident rr) (''Start sending!'' @ nl))
          (fold unsubscribeCloseListener (receivers up) (senderJoined rr path up s)))"
  by (simp add: handleSender_def Let_def createSenderOrReceiver_def getPipeIfEstablished_def
      senderJoined_def)

text \<open>The branches of \<open>handleReceiver\<close>.\<close>

lemma handleReceiver_bad_count:
  "getNReceivers (req rr) \<le> 0 \<Longrightarrow>
   handleReceiver rr path s = reply (ident rr) 400 (msgBadCount (getNReceivers (req rr))) s"
  by (simp add: handleReceiver_def)

lemma handleReceiver_established:
  "0 < getNReceivers (req rr) \<Longrightarrow> pathToEstablished s path \<noteq> None \<Longrightarrow>
   handleReceiver rr path s = reply (ident rr) 400 (msgReceiverEstablished path) s"
  by (simp add: handleReceiver_def)

lemma handleReceiver_new:
  "0 < getNReceivers (req rr) \<Longrightarrow> pathToEstablished s path = None \<Longrightarrow>
   pathToUnestablishedPipe s path = None \<Longrightarrow>
   handleReceiver rr path s =
     (snd (createSenderOrReceiver ReceiverT rr path s))
       \<lparr>pathToUnestablishedPipe := (pathToUnestablishedPipe s)
          (path \<mapsto> \<lparr>sender = None, receivers = [\<lparr>reqRes = rr\<rparr>],
                       nReceivers = getNReceivers (req rr)\<rparr>)\<rparr>"
  by (simp add: handleReceiver_def Let_def createSenderOrReceiver_def)

lemma handleReceiver_mismatch:
  "0 < getNReceivers (req rr) \<Longrightarrow> pathToEstablished s path = None \<Longrightarrow>
   pathToUnestablishedPipe s path = Some up \<Longrightarrow> getNReceivers (req rr) \<noteq> nReceivers up \<Longrightarrow>
   handleReceiver rr path s = reply (ident rr) 400 (msgMismatch (nReceivers up) (getNReceivers (req rr))) s"
  by (simp add: handleReceiver_def)

lemma handleReceiver_full:
  "0 < getNReceivers (req rr) \<Longrightarrow> pathToEstablished s path = None \<Longrightarrow>
   pathToUnestablishedPipe s path = Some up \<Longrightarrow> getNReceivers (req rr) = nReceivers up \<Longrightarrow>
   \<not> int (length (receivers up)) < nReceivers up \<Longrightarrow>
   handleReceiver rr path s =
     reply (ident rr) 400 (''Error: The number of receivers has reached limits.'' @ nl) s"
  by (simp add: handleReceiver_def)

lemma handleReceiver_join_wait:
  "0 < getNReceivers (req rr) \<Longrightarrow> pathToEstablished s path = None \<Longrightarrow>
   pathToUnestablishedPipe s path = Some up \<Longrightarrow> getNReceivers (req rr) = nReceivers up \<Longrightarrow>
   int (length (receivers up)) < nReceivers up \<Longrightarrow>
   sender up = None \<or> int (length (receivers up)) + 1 \<noteq> nReceivers up \<Longrightarrow>
   handleReceiver rr path s = receiverJoined rr path up s"
  by (auto simp add: handleReceiver_def Let_def createSenderOrReceiver_def getPipeIfEstablished_def
      receiverJoined_def split: option.splits)

lemma handleReceiver_join_start:
  "0 < getNReceivers (req rr) \<Longrightarrow> pathToEstablished s path = None \<Longrightarrow>
   pathToUnestablishedPipe s path = Some up \<Longrightarrow> getNReceivers (req rr) = nReceivers up \<Longrightarrow>
   sender up = Some sd \<Longrightarrow> int (length (receivers up)) + 1 = nReceivers up \<Longrightarrow>
   handleReceiver rr path s =
     runPipe path \<lparr>pipe_sender = reqRes sd, pipe_receivers = map reqRes (receivers up) @ [rr]\<rparr>
       (emit (ResWrite (ident (reqRes sd)) (msgStartWith (Suc (length (receivers up)))))
          (fold unsubscribeCloseListener (receivers up @ [\<lparr>reqRes = rr\<rparr>])
             (receiverJoined rr path up s)))"
  by (simp add: handleReceiver_def Let_def createSenderOrReceiver_def getPipeIfEstablished_def
      receiverJoined_def)

lemma frame_refl [simp]: "frame s s"
  by (simp add: frame_def)

lemma frame_emit: "frame s0 s \<Longrightarrow> frame s0 (emit e s)"
  by (simp add: frame_def)

lemma frame_clear: "frame s0 s \<Longrightarrow> frame s0 (s\<lparr>pathToEstablished := (pathToEstablished s)(p := None)\<rparr>)"
  by (simp add: frame_def)

lemma frame_transfers [simp]: "frame s0 (s\<lparr>transfers := ts\<rparr>) = frame s0 s"
  by (simp add: frame_def)

lemma frame_closeReceiver: "frame s0 s \<Longrightarrow> frame s0 (snd (closeReceiver r t s))"
  by (simp add: closeReceiver_def Let_def frame_def)

lemma frame_receiverHandlers: "frame s0 s \<Longrightarrow> frame s0 (snd (receiverHandlers me rs t s))"
proof (induction rs arbitrary: t s)
  case Nil
  then show ?case by simp
next
  case (Cons r rs)
  show ?case
  proof (cases "ident r = me")
    case True
    obtain t1 s1 where c: "closeReceiver r t s = (t1, s1)" by (cases "closeReceiver r t s")
    with frame_closeReceiver [OF Cons.prems, of r t] have "frame s0 s1" by simp
    with Cons.IH True c show ?thesis by simp
  next
    case False
    with Cons show ?thesis by simp
  qed
qed

lemma frame_senderOnClose: "frame s0 s \<Longrightarrow> frame s0 (senderOnClose t s)"
proof -
  have "\<And>s. frame s0 s \<Longrightarrow> frame s0 (fold (\<lambda>r. emit (ResConnectionDestroy (ident r))) rs s)" for rs
    by (induction rs) (simp_all add: frame_emit)
  then show "frame s0 s \<Longrightarrow> frame s0 (senderOnClose t s)"
    by (simp add: senderOnClose_def)
qed

lemma frame_senderOnEnd: "frame s0 s \<Longrightarrow> frame s0 (senderOnEnd t s)"
  by (simp add: senderOnEnd_def frame_def)

lemma frame_senderOnError: "frame s0 s \<Longrightarrow> frame s0 (senderOnError t s)"
  by (simp add: senderOnError_def frame_def)

lemma frame_startStreaming: "frame s0 s \<Longrightarrow> frame s0 (snd (startStreaming pt t s))"
  by (simp add: startStreaming_def frame_def)

lemma frame_forTransfers:
  assumes h: "\<And>t s. frame s0 s \<Longrightarrow> frame s0 (snd (h t s))"
  shows "frame s0 s \<Longrightarrow> frame s0 (snd (forTransfers h ts s))"
proof (induction ts arbitrary: s)
  case Nil
  then show ?case by simp
next
  case (Cons t ts)
  obtain t1 s1 where a: "h t s = (t1, s1)" by (cases "h t s")
  with h [OF Cons.prems, of t] have "frame s0 s1" by simp
  from Cons.IH [OF this] a show ?case by (auto split: prod.splits)
qed

lemma frame_applyTransfers:
  assumes h: "\<And>t s. frame s0 s \<Longrightarrow> frame s0 (snd (h t s))"
  shows "frame s0 s \<Longrightarrow> frame s0 (applyTransfers h s)"
  using frame_forTransfers [of s0 h s "transfers s", OF h]
  by (auto simp: applyTransfers_def split: prod.splits)

lemma frame_onReqClose: "frame s0 s \<Longrightarrow> frame s0 (snd (onReqClose me t s))"
  using frame_receiverHandlers [of s0 s me "pipe_receivers (tpipe t)" t]
  by (auto simp: onReqClose_def frame_senderOnClose split: phase.splits prod.splits)

lemma frame_onReqError: "frame s0 s \<Longrightarrow> frame s0 (snd (onReqError me t s))"
  using frame_receiverHandlers [of s0 s me "pipe_receivers (tpipe t)" t]
  by (auto simp: onReqError_def frame_senderOnError split: phase.splits prod.splits)

lemma frame_onReqEnd: "frame s0 s \<Longrightarrow> frame s0 (snd (onReqEnd me t s))"
  by (auto simp: onReqEnd_def frame_senderOnEnd split: phase.splits)

lemma frame_onFormPart: "frame s0 s \<Longrightarrow> frame s0 (snd (onFormPart me p t s))"
  by (auto simp: onFormPart_def frame_startStreaming split: phase.splits)

lemma frame_onPart:
  "(\<And>t s. frame s0 s \<Longrightarrow> frame s0 (h t s)) \<Longrightarrow> frame s0 s \<Longrightarrow> frame s0 (snd (onPart h me t s))"
  by (auto simp: onPart_def split: phase.splits)

text \<open>Every event other than a request and the close listener leaves the records alone.\<close>

lemma frame_step_transfers:
  "frame s (applyTransfers (onReqClose me) s)"
  "frame s (applyTransfers (onReqError me) s)"
  "frame s (applyTransfers (onReqEnd me) s)"
  "frame s (applyTransfers (onFormPart me p) s)"
  "frame s (applyTransfers (onPart senderOnClose me) s)"
  "frame s (applyTransfers (onPart senderOnEnd me) s)"
  "frame s (applyTransfers (onPart senderOnError me) s)"
  by (rule frame_applyTransfers;
      simp add: frame_onReqClose frame_onReqError frame_onReqEnd frame_onFormPart frame_onPart
        frame_senderOnClose frame_senderOnEnd frame_senderOnError)+

lemma frame_counts_ok: "frame s s' \<Longrightarrow> counts_ok s \<Longrightarrow> counts_ok s'"
  by (simp add: frame_def counts_ok_def)

lemma frame_reserved_free: "frame s s' \<Longrightarrow> reserved_free s \<Longrightarrow> reserved_free s'"
  by (auto simp: frame_def reserved_free_def)

lemma frame_disjoint_ok: "frame s s' \<Longrightarrow> disjoint_ok s \<Longrightarrow> disjoint_ok s'"
  unfolding frame_def disjoint_ok_def by metis

lemma senderJoined_fields [simp]:
  "pathToEstablished (senderJoined rr path up s) = pathToEstablished s"
  "pathToUnestablishedPipe (senderJoined rr path up s) =
     (pathToUnestablishedPipe s)(path \<mapsto> up\<lparr>sender := Some \<lparr>reqRes = rr\<rparr>\<rparr>)"
  "nextId (senderJoined rr path up s) = nextId s"
  "closeListeners (senderJoined rr path up s) = (closeListeners s)(ident rr \<mapsto> (SenderT, path))"
  "transfers (senderJoined rr path up s) = transfers s"
  "effects (senderJoined rr path up s) =
     effects s @ [ReqOnceClose (ident rr), ResWrite (ident rr) (msgWaiting (nReceivers up)),
                  ResWrite (ident rr) (msgConnected (length (receivers up)))]"
  by (simp_all add: senderJoined_def)

lemma receiverJoined_fields [simp]:
  "pathToEstablished (receiverJoined rr path up s) = pathToEstablished s"
  "pathToUnestablishedPipe (receiverJoined rr path up s) =
     (pathToUnestablishedPipe s)(path \<mapsto> up\<lparr>receivers := receivers up @ [\<lparr>reqRes = rr\<rparr>]\<rparr>)"
  "nextId (receiverJoined rr path up s) = nextId s"
  "closeListeners (receiverJoined rr path up s) = (closeListeners s)(ident rr \<mapsto> (ReceiverT, path))"
  "transfers (receiverJoined rr path up s) = transfers s"
  "effects (receiverJoined rr path up s) =
     effects s @ [ReqOnceClose (ident rr)] @
     (case sender up of
        Some sd \<Rightarrow> [ResWrite (ident (reqRes sd)) (''[INFO] A receiver was connected.'' @ nl)]
      | None \<Rightarrow> [])"
  by (simp_all add: receiverJoined_def Let_def split: option.splits)

lemma handleSender_cases [case_names reject new wait start]:
  obtains body where "handleSender rr path s = reply (ident rr) 400 body s"
  | "0 < getNReceivers (req rr)" "pathToEstablished s path = None"
    "pathToUnestablishedPipe s path = None"
    "handleSender rr path s =
       (snd (createSenderOrReceiver SenderT rr path
               (emit (ResWrite (ident rr) (msgWaiting (getNReceivers (req rr)))) s)))
         \<lparr>pathToUnestablishedPipe := (pathToUnestablishedPipe s)
            (path \<mapsto> \<lparr>sender = Some \<lparr>reqRes = rr\<rparr>, receivers = [],
                         nReceivers = getNReceivers (req rr)\<rparr>)\<rparr>"
  | up where "0 < getNReceivers (req rr)" "pathToEstablished s path = None"
    "pathToUnestablishedPipe s path = Some up" "sender up = None"
    "getNReceivers (req rr) = nReceivers up" "int (length (receivers up)) \<noteq> nReceivers up"
    "handleSender rr path s = senderJoined rr path up s"
  | up where "0 < getNReceivers (req rr)" "pathToEstablished s path = None"
    "pathToUnestablishedPipe s path = Some up" "sender up = None"
    "getNReceivers (req rr) = nReceivers up" "int (length (receivers up)) = nReceivers up"
    "handleSender rr path s =
       runPipe path \<lparr>pipe_sender = rr, pipe_receivers = map reqRes (receivers up)\<rparr>
         (emit (ResWrite (ident rr) (''Start sending!'' @ nl))
            (fold unsubscribeCloseListener (receivers up) (senderJoined rr path up s)))"
proof (cases "getNReceivers (req rr) \<le> 0")
  case True
  then show ?thesis using that(1) handleSender_bad_count by blast
next
  case pos: False
  show ?thesis
  proof (cases "pathToEstablished s path = None")
    case False
    then show ?thesis using that(1) handleSender_established pos by (meson not_le)
  next
    case noest: True
    show ?thesis
    proof (cases "pathToUnestablishedPipe s path")
      case None
      then show ?thesis using that(2) handleSender_new pos noest by (meson not_le)
    next
      case (Some up)
      show ?thesis
      proof (cases "sender up = None")
        case False
        then show ?thesis using that(1) handleSender_another pos noest Some by (meson not_le)
      next
        case nosender: True
        show ?thesis
        proof (cases "getNReceivers (req rr) = nReceivers up")
          case False
          then show ?thesis
            using that(1) handleSender_mismatch pos noest Some nosender by (meson not_le)
        next
          case same: True
          show ?thesis
          proof (cases "int (length (receivers up)) = nReceivers up")
            case True
            then show ?thesis
              using that(4) [of up] handleSender_join_start [of rr s path up] pos noest Some nosender same
              by simp
          next
            case False
            then show ?thesis
              using that(3) [of up] handleSender_join_wait [of rr s path up] pos noest Some nosender same
              by simp
          qed
        qed
      qed
    qed
  qed
qed

lemma handleReceiver_cases [case_names reject new wait start]:
  obtains body where "handleReceiver rr path s = reply (ident rr) 400 body s"
  | "0 < getNReceivers (req rr)" "pathToEstablished s path = None"
    "pathToUnestablishedPipe s path = None"
    "handleReceiver rr path s =
       (snd (createSenderOrReceiver ReceiverT rr path s))
         \<lparr>pathToUnestablishedPipe := (pathToUnestablishedPipe s)
            (path \<mapsto> \<lparr>sender = None, receivers = [\<lparr>reqRes = rr\<rparr>],
                         nReceivers = getNReceivers (req rr)\<rparr>)\<rparr>"
  | up where "0 < getNReceivers (req rr)" "pathToEstablished s path = None"
    "pathToUnestablishedPipe s path = Some up" "getNReceivers (req rr) = nReceivers up"
    "int (length (receivers up)) < nReceivers up"
    "sender up = None \<or> int (length (receivers up)) + 1 \<noteq> nReceivers up"
    "handleReceiver rr path s = receiverJoined rr path up s"
  | up sd where "0 < getNReceivers (req rr)" "pathToEstablished s path = None"
    "pathToUnestablishedPipe s path = Some up" "getNReceivers (req rr) = nReceivers up"
    "sender up = Some sd" "int (length (receivers up)) + 1 = nReceivers up"
    "handleReceiver rr path s =
       runPipe path \<lparr>pipe_sender = reqRes sd, pipe_receivers = map reqRes (receivers up) @ [rr]\<rparr>
         (emit (ResWrite (ident (reqRes sd)) (msgStartWith (Suc (length (receivers up)))))
            (fold unsubscribeCloseListener (receivers up @ [\<lparr>reqRes = rr\<rparr>])
               (receiverJoined rr path up s)))"
proof (cases "getNReceivers (req rr) \<le> 0")
  case True
  then show ?thesis using that(1) handleReceiver_bad_count by blast
next
  case pos: False
  show ?thesis
  proof (cases "pathToEstablished s path = None")
    case False
    then show ?thesis using that(1) handleReceiver_established pos by (meson not_le)
  next
    case noest: True
    show ?thesis
    proof (cases "pathToUnestablishedPipe s path")
      case None
      then show ?thesis using that(2) handleReceiver_new pos noest by (meson not_le)
    next
      case (Some up)
      show ?thesis
      proof (cases "getNReceivers (req rr) = nReceivers up")
        case False
        then show ?thesis using that(1) handleReceiver_mismatch pos noest Some by (meson not_le)
      next
        case same: True
        show ?thesis
        proof (cases "int (length (receivers up)) < nReceivers up")
          case False
          then show ?thesis using that(1) handleReceiver_full pos noest Some same by (meson not_le)
        next
          case room: True
          show ?thesis
          proof (cases "sender up = None \<or> int (length (receivers up)) + 1 \<noteq> nReceivers up")
            case True
            then show ?thesis
              using that(3) [of up] handleReceiver_join_wait [of rr s path up] pos noest Some same room
              by simp
          next
            case False
            then obtain sd where "sender up = Some sd" by auto
            with False show ?thesis
              using that(4) [of up sd] handleReceiver_join_start [of rr s path up sd] pos noest Some same
              by simp
          qed
        qed
      qed
    qed
  qed
qed

lemma counts_ok_handleSender: "counts_ok s \<Longrightarrow> counts_ok (handleSender rr path s)"
  by (cases rule: handleSender_cases [of rr path s]) (auto simp: counts_ok_def)

lemma counts_ok_handleReceiver: "counts_ok s \<Longrightarrow> counts_ok (handleReceiver rr path s)"
  by (cases rule: handleReceiver_cases [of rr path s]) (auto simp: counts_ok_def)

lemma disjoint_ok_handleSender: "disjoint_ok s \<Longrightarrow> disjoint_ok (handleSender rr path s)"
  by (cases rule: handleSender_cases [of rr path s]) (auto simp: disjoint_ok_def)

lemma disjoint_ok_handleReceiver: "disjoint_ok s \<Longrightarrow> disjoint_ok (handleReceiver rr path s)"
  by (cases rule: handleReceiver_cases [of rr path s]) (auto simp: disjoint_ok_def)

lemma reserved_free_handleSender:
  "path \<notin> set RESERVED_PATHS \<Longrightarrow> reserved_free s \<Longrightarrow> reserved_free (handleSender rr path s)"
  by (cases rule: handleSender_cases [of rr path s]) (auto simp: reserved_free_def)

lemma reserved_free_handleReceiver:
  "path \<notin> set RESERVED_PATHS \<Longrightarrow> reserved_free s \<Longrightarrow> reserved_free (handleReceiver rr path s)"
  by (cases rule: handleReceiver_cases [of rr path s]) (auto simp: reserved_free_def)

lemma fresh_ok_handleSender:
  "ident rr < nextId s \<Longrightarrow> fresh_ok s \<Longrightarrow> fresh_ok (handleSender rr path s)"
  by (cases rule: handleSender_cases [of rr path s]) (auto simp: fresh_ok_def)

lemma fresh_ok_handleReceiver:
  "ident rr < nextId s \<Longrightarrow> fresh_ok s \<Longrightarrow> fresh_ok (handleReceiver rr path s)"
  by (cases rule: handleReceiver_cases [of rr path s]) (auto simp: fresh_ok_def)

lemma closeListener_absent:
  "pathToUnestablishedPipe s path = None \<Longrightarrow> closeListener rt me path s = s"
  by (simp add: closeListener_def)

lemma closeListener_sender:
  "pathToUnestablishedPipe s path = Some up \<Longrightarrow>
   closeListener SenderT me path s =
     (if sender up = None then s
      else if receivers up = []
      then s\<lparr>pathToUnestablishedPipe := (pathToUnestablishedPipe s)(path := None)\<rparr>
      else s\<lparr>pathToUnestablishedPipe := (pathToUnestablishedPipe s)(path \<mapsto> up\<lparr>sender := None\<rparr>)\<rparr>)"
  by (simp add: closeListener_def Let_def map_upd_triv)

lemma closeListener_receiver:
  "pathToUnestablishedPipe s path = Some up \<Longrightarrow>
   closeListener ReceiverT me path s =
     (case findIndex (\<lambda>r. ident (reqRes r) = me) (receivers up) of
        None \<Rightarrow> s
      | Some idx \<Rightarrow>
          (let rs = take idx (receivers up) @ drop (Suc idx) (receivers up)
           in if rs = [] \<and> sender up = None
              then s\<lparr>pathToUnestablishedPipe := (pathToUnestablishedPipe s)(path := None)\<rparr>
              else s\<lparr>pathToUnestablishedPipe := (pathToUnestablishedPipe s)(path \<mapsto> up\<lparr>receivers := rs\<rparr>)\<rparr>))"
  by (auto simp: closeListener_def Let_def map_upd_triv split: option.splits)

lemma findIndex_Some: "findIndex P xs = Some i \<Longrightarrow> i < length xs"
  by (induction xs arbitrary: i) (auto split: if_splits option.splits)

lemma closeListener_fields [simp]:
  "pathToEstablished (closeListener rt me path s) = pathToEstablished s"
  "nextId (closeListener rt me path s) = nextId s"
  "closeListeners (closeListener rt me path s) = closeListeners s"
  "transfers (closeListener rt me path s) = transfers s"
  "effects (closeListener rt me path s) = effects s"
  by (cases "pathToUnestablishedPipe s path"; cases rt;
      simp add: closeListener_absent closeListener_sender closeListener_receiver Let_def
        split: option.splits)+

lemma closeListener_records:
  "pathToUnestablishedPipe (closeListener rt me path s) p = Some up' \<Longrightarrow>
   \<exists>up. pathToUnestablishedPipe s p = Some up \<and> nReceivers up' = nReceivers up \<and>
        set (receivers up') \<subseteq> set (receivers up) \<and> length (receivers up') \<le> length (receivers up) \<and>
        (sender up' = None \<or> sender up' = sender up)"
  by (cases "pathToUnestablishedPipe s path"; cases rt)
     (auto simp: closeListener_absent closeListener_sender closeListener_receiver Let_def
        split: option.splits if_splits dest: in_set_takeD in_set_dropD)

lemma closeListener_keys:
  "pathToUnestablishedPipe s p = None \<Longrightarrow> pathToUnestablishedPipe (closeListener rt me path s) p = None"
  by (cases "pathToUnestablishedPipe s path"; cases rt)
     (auto simp: closeListener_absent closeListener_sender closeListener_receiver Let_def
        split: option.splits if_splits)

lemma counts_ok_closeListener: "counts_ok s \<Longrightarrow> counts_ok (closeListener rt me path s)"
  unfolding counts_ok_def
proof (intro allI impI)
  fix p up'
  assume inv: "\<forall>path up. pathToUnestablishedPipe s path = Some up \<longrightarrow>
                 int (length (receivers up)) \<le> nReceivers up \<and> 1 \<le> nReceivers up"
    and "pathToUnestablishedPipe (closeListener rt me path s) p = Some up'"
  from closeListener_records [OF this(2)] obtain up where
    "pathToUnestablishedPipe s p = Some up" "nReceivers up' = nReceivers up"
    "length (receivers up') \<le> length (receivers up)" by blast
  with inv show "int (length (receivers up')) \<le> nReceivers up' \<and> 1 \<le> nReceivers up'"
    by fastforce
qed

lemma reserved_free_closeListener: "reserved_free s \<Longrightarrow> reserved_free (closeListener rt me path s)"
  by (simp add: reserved_free_def closeListener_keys)

lemma disjoint_ok_closeListener: "disjoint_ok s \<Longrightarrow> disjoint_ok (closeListener rt me path s)"
  unfolding disjoint_ok_def
proof (intro allI impI)
  fix p
  assume inv: "\<forall>p. pathToUnestablishedPipe s p \<noteq> None \<longrightarrow> pathToEstablished s p = None"
    and "pathToUnestablishedPipe (closeListener rt me path s) p \<noteq> None"
  with closeListener_keys [of s p rt me path] have "pathToUnestablishedPipe s p \<noteq> None" by blast
  with inv show "pathToEstablished (closeListener rt me path s) p = None" by simp
qed

lemma fresh_ok_closeListener: "fresh_ok s \<Longrightarrow> fresh_ok (closeListener rt me path s)"
  unfolding fresh_ok_def
proof (intro allI impI)
  fix p up'
  assume inv: "\<forall>path up. pathToUnestablishedPipe s path = Some up \<longrightarrow>
        (\<forall>r \<in> set (receivers up). ident (reqRes r) < nextId s) \<and>
        (\<forall>sd. sender up = Some sd \<longrightarrow> ident (reqRes sd) < nextId s)"
    and "pathToUnestablishedPipe (closeListener rt me path s) p = Some up'"
  from closeListener_records [OF this(2)] obtain up where
    "pathToUnestablishedPipe s p = Some up" "set (receivers up') \<subseteq> set (receivers up)"
    "sender up' = None \<or> sender up' = sender up" by blast
  with inv show "(\<forall>r \<in> set (receivers up'). ident (reqRes r) < nextId (closeListener rt me path s)) \<and>
        (\<forall>sd. sender up' = Some sd \<longrightarrow> ident (reqRes sd) < nextId (closeListener rt me path s))"
    by (auto simp: subset_iff)
qed

lemma fresh_ok_frame: "frame s s' \<Longrightarrow> fresh_ok s \<Longrightarrow> fresh_ok s'"
  by (simp add: frame_def fresh_ok_def)

lemma inv_frame: "frame s s' \<Longrightarrow> inv s \<Longrightarrow> inv s'"
  by (simp add: inv_def frame_counts_ok frame_reserved_free frame_disjoint_ok fresh_ok_frame)

lemma inv_nextId: "inv s \<Longrightarrow> inv (s\<lparr>nextId := Suc (nextId s)\<rparr>)"
  by (auto simp: inv_def counts_ok_def reserved_free_def disjoint_ok_def fresh_ok_def less_Suc_eq)

lemma inv_emit: "inv s \<Longrightarrow> inv (emit e s)"
  by (simp add: inv_def counts_ok_def reserved_free_def disjoint_ok_def fresh_ok_def)

lemma inv_reply: "inv s \<Longrightarrow> inv (reply r c b s)"
  by (simp add: inv_def counts_ok_def reserved_free_def disjoint_ok_def fresh_ok_def)

lemma inv_handleSender:
  "path \<notin> set RESERVED_PATHS \<Longrightarrow> ident rr < nextId s \<Longrightarrow> inv s \<Longrightarrow> inv (handleSender rr path s)"
  by (simp add: inv_def counts_ok_handleSender reserved_free_handleSender disjoint_ok_handleSender
      fresh_ok_handleSender)

lemma inv_handleReceiver:
  "path \<notin> set RESERVED_PATHS \<Longrightarrow> ident rr < nextId s \<Longrightarrow> inv s \<Longrightarrow> inv (handleReceiver rr path s)"
  by (simp add: inv_def counts_ok_handleReceiver reserved_free_handleReceiver
      disjoint_ok_handleReceiver fresh_ok_handleReceiver)

lemma inv_handler: "inv s \<Longrightarrow> inv (handler cfg rq s)"
  using inv_handleSender [of "reqPath rq" "\<lparr>ident = nextId s, req = rq\<rparr>" "s\<lparr>nextId := Suc (nextId s)\<rparr>"]
    inv_handleReceiver [of "reqPath rq" "\<lparr>ident = nextId s, req = rq\<rparr>" "s\<lparr>nextId := Suc (nextId s)\<rparr>"]
  by (simp add: handler_def Let_def inv_nextId inv_emit inv_reply RESERVED_PATHS_def)

lemma inv_closeListener: "inv s \<Longrightarrow> inv (closeListener rt me path s)"
  by (simp add: inv_def counts_ok_closeListener reserved_free_closeListener
      disjoint_ok_closeListener fresh_ok_closeListener)

lemma inv_forget_listener: "inv s \<Longrightarrow> inv (s\<lparr>closeListeners := l\<rparr>)"
  by (simp add: inv_def counts_ok_def reserved_free_def disjoint_ok_def fresh_ok_def)

lemma inv_fireCloseListener: "inv s \<Longrightarrow> inv (fireCloseListener me s)"
  by (simp add: fireCloseListener_def inv_closeListener inv_forget_listener split: option.splits)

lemma inv_step: "inv s \<Longrightarrow> inv (step cfg ev s)"
  by (cases ev) (auto intro: inv_handler inv_frame [OF frame_step_transfers(1)]
      inv_frame [OF frame_step_transfers(2)] inv_frame [OF frame_step_transfers(3)]
      inv_frame [OF frame_step_transfers(4)] inv_frame [OF frame_step_transfers(5)]
      inv_frame [OF frame_step_transfers(6)] inv_frame [OF frame_step_transfers(7)]
      inv_fireCloseListener)

lemma inv_fold: "inv s \<Longrightarrow> inv (fold (step cfg) evs s)"
  by (induction evs arbitrary: s) (simp_all add: inv_step)

lemma inv_init: "inv init"
  by (simp add: inv_def init_def counts_ok_def reserved_free_def disjoint_ok_def fresh_ok_def)

lemma inv_run: "inv (run cfg evs)"
  by (simp add: run_def inv_fold inv_init)


lemma emitted_append [simp]: "effects s' = effects s @ es \<Longrightarrow> emitted s s' = es"
  by (simp add: emitted_def)

lemma emitted_self [simp]: "emitted s s = []"
  by (simp add: emitted_def)

lemma counts_ok_handler: "counts_ok s \<Longrightarrow> counts_ok (handler cfg rq s)"
proof -
  assume a: "counts_ok s"
  then have b: "counts_ok (s\<lparr>nextId := Suc (nextId s)\<rparr>)" by (simp add: counts_ok_def)
  have c: "counts_ok s' \<Longrightarrow> counts_ok (emit e s')" "counts_ok s' \<Longrightarrow> counts_ok (reply r c' b' s')" for s' e r c' b'
    by (simp_all add: counts_ok_def)
  show ?thesis
    by (simp add: handler_def Let_def b c counts_ok_handleSender counts_ok_handleReceiver)
qed

lemma counts_ok_fireCloseListener: "counts_ok s \<Longrightarrow> counts_ok (fireCloseListener me s)"
proof -
  assume a: "counts_ok s"
  then have "counts_ok (s\<lparr>closeListeners := l\<rparr>)" for l by (simp add: counts_ok_def)
  then show ?thesis
    by (simp add: fireCloseListener_def a counts_ok_closeListener split: option.splits)
qed

lemma counts_ok_step: "counts_ok s \<Longrightarrow> counts_ok (step cfg ev s)"
  by (cases ev)
     (auto intro: counts_ok_handler counts_ok_fireCloseListener
        frame_counts_ok [OF frame_step_transfers(1)] frame_counts_ok [OF frame_step_transfers(2)]
        frame_counts_ok [OF frame_step_transfers(3)] frame_counts_ok [OF frame_step_transfers(4)]
        frame_counts_ok [OF frame_step_transfers(5)] frame_counts_ok [OF frame_step_transfers(6)]
        frame_counts_ok [OF frame_step_transfers(7)])

lemma example_waiting:
  "pathToUnestablishedPipe
     (run exampleConfig [Request (exampleRequest ''GET'' ''/foo'' (Some ''2''))]) ''/foo'' =
   Some \<lparr>sender = None,
         receivers = [\<lparr>reqRes = \<lparr>ident = 0, req = exampleRequest ''GET'' ''/foo'' (Some ''2'')\<rparr>\<rparr>],
         nReceivers = 2\<rparr>"
  by (simp add: run_def init_def handler_def Let_def exampleRequest_def RESERVED_PATHS_def
      handleReceiver_def getNReceivers_def nanOrElse_def parseInt10_def signOf_def dropSign_def isWhiteSpace_def
      isDigit_def digitsVal_def digitVal_def createSenderOrReceiver_def emit_def)


lemmas eval_defs =
  run_def init_def handler_def Let_def exampleRequest_def exampleConfig_def RESERVED_PATHS_def
  handleReceiver_def handleSender_def getNReceivers_def nanOrElse_def parseInt10_def signOf_def dropSign_def
  isWhiteSpace_def isDigit_def digitsVal_def digitVal_def createSenderOrReceiver_def emit_def
  reply_def getPipeIfEstablished_def unsubscribeCloseListener_def runPipe_def isMultipart_def
  startStreaming_def connectReceiver_def receiverHeaders_def applyTransfers_def onReqClose_def
  onReqError_def onReqEnd_def onFormPart_def onPart_def fireCloseListener_def closeListener_def
  closeReceiver_def senderOnClose_def senderOnEnd_def senderOnError_def emitted_def

lemma length_forTransfers: "length (fst (forTransfers h ts s)) = length ts"
proof (induction ts arbitrary: s)
  case Nil
  then show ?case by simp
next
  case (Cons t ts)
  obtain t1 s1 where a: "h t s = (t1, s1)" by (cases "h t s")
  obtain ts1 s2 where b: "forTransfers h ts s1 = (ts1, s2)" by (cases "forTransfers h ts s1")
  from Cons.IH [of s1] b have "length ts1 = length ts" by simp
  with a b show ?case by simp
qed

lemma length_applyTransfers: "length (transfers (applyTransfers h s)) = length (transfers s)"
  using length_forTransfers [of h "transfers s" s]
  by (auto simp: applyTransfers_def split: prod.splits)

lemma transfers_fireCloseListener: "transfers (fireCloseListener me s) = transfers s"
  by (simp add: fireCloseListener_def split: option.splits)

lemma step_keeps_transfers:
  "(\<forall>rq. ev \<noteq> Request rq) \<Longrightarrow> length (transfers (step cfg ev s)) = length (transfers s)"
  by (cases ev) (simp_all add: length_applyTransfers transfers_fireCloseListener)

lemma sender_equiv:
  "started s (handleSender rr path s) \<longleftrightarrow>
      (\<exists>up. registeredSender rr path s = Some up \<and> establishment_predicate up) \<and>
      pathToEstablished s path = None"
  by (auto simp: started_def newTransfers_def handleSender_def registeredSender_def
      establishment_predicate_def Let_def getPipeIfEstablished_def
      createSenderOrReceiver_def split: option.splits)

lemma receiver_equiv:
  "started s (handleReceiver rr path s) \<longleftrightarrow>
      (\<exists>up. registeredReceiver rr path s = Some up \<and> establishment_predicate up) \<and>
      pathToEstablished s path = None"
  by (auto simp: started_def newTransfers_def handleReceiver_def registeredReceiver_def
      establishment_predicate_def Let_def getPipeIfEstablished_def
      createSenderOrReceiver_def split: option.splits)

lemma sender_outcome:
  "registeredSender rr path s = Some up \<Longrightarrow> registrationOutcome up path s (handleSender rr path s)"
  by (auto simp: newTransfers_def handleSender_def registeredSender_def registrationOutcome_def
      establishment_predicate_def Let_def getPipeIfEstablished_def
      createSenderOrReceiver_def split: option.splits if_splits)

lemma receiver_outcome:
  "registeredReceiver rr path s = Some up \<Longrightarrow> registrationOutcome up path s (handleReceiver rr path s)"
  by (auto simp: newTransfers_def handleReceiver_def registeredReceiver_def registrationOutcome_def
      establishment_predicate_def Let_def getPipeIfEstablished_def
      createSenderOrReceiver_def split: option.splits if_splits)

lemma sender_rejected:
  "registeredSender rr path s = None \<Longrightarrow>
   pathToUnestablishedPipe (handleSender rr path s) = pathToUnestablishedPipe s \<and>
   pathToEstablished (handleSender rr path s) = pathToEstablished s \<and>
   closeListeners (handleSender rr path s) = closeListeners s"
  by (auto simp: handleSender_def registeredSender_def Let_def split: option.splits if_splits)

lemma receiver_rejected:
  "registeredReceiver rr path s = None \<Longrightarrow>
   pathToUnestablishedPipe (handleReceiver rr path s) = pathToUnestablishedPipe s \<and>
   pathToEstablished (handleReceiver rr path s) = pathToEstablished s \<and>
   closeListeners (handleReceiver rr path s) = closeListeners s"
  by (auto simp: handleReceiver_def registeredReceiver_def Let_def split: option.splits if_splits)

lemma handler_equiv:
  "started s (handler cfg rq s) \<longleftrightarrow>
      reqPath rq \<notin> set RESERVED_PATHS \<and>
      ((reqMethod rq = ''POST'' \<or> reqMethod rq = ''PUT'') \<and>
       (\<exists>up. registeredSender \<lparr>ident = nextId s, req = rq\<rparr> (reqPath rq) s = Some up \<and>
             establishment_predicate up) \<or>
       reqMethod rq = ''GET'' \<and>
       (\<exists>up. registeredReceiver \<lparr>ident = nextId s, req = rq\<rparr> (reqPath rq) s = Some up \<and>
             establishment_predicate up))"
proof -
  let ?t = "s\<lparr>nextId := Suc (nextId s)\<rparr>"
  let ?rr = "\<lparr>ident = nextId s, req = rq\<rparr>"
  have a: "started s x = started ?t x" for x by (simp add: started_def newTransfers_def)
  have b: "registeredSender ?rr (reqPath rq) ?t = registeredSender ?rr (reqPath rq) s"
    "registeredReceiver ?rr (reqPath rq) ?t = registeredReceiver ?rr (reqPath rq) s"
    by (simp_all add: registeredSender_def registeredReceiver_def)
  have c: "registeredSender ?rr (reqPath rq) s = Some up \<Longrightarrow> pathToEstablished s (reqPath rq) = None"
    "registeredReceiver ?rr (reqPath rq) s = Some up \<Longrightarrow> pathToEstablished s (reqPath rq) = None" for up
    by (auto simp: registeredSender_def registeredReceiver_def split: if_splits)
  have d: "\<not> started ?t (emit e ?t)" "\<not> started ?t (reply r c' b' ?t)" for e r c' b'
    by (simp_all add: started_def newTransfers_def)
  show ?thesis
    using sender_equiv [of ?t ?rr "reqPath rq"] receiver_equiv [of ?t ?rr "reqPath rq"] c
    unfolding a b
    by (auto simp: handler_def Let_def d RESERVED_PATHS_def)
qed

lemma example_established:
  "pathToEstablished
     (run exampleConfig [Request (exampleRequest ''GET'' ''/foo'' None),
                         Request (exampleRequest ''POST'' ''/foo'' None)]) ''/foo'' = Some True \<and>
   nextId
     (run exampleConfig [Request (exampleRequest ''GET'' ''/foo'' None),
                         Request (exampleRequest ''POST'' ''/foo'' None)]) = 2"
  by (simp add: eval_defs)




lemma responseCalls_simps [simp]:
  "responseCalls me [] = []"
  "responseCalls me (e # es) = (if onResponse me e then e # responseCalls me es else responseCalls me es)"
  by (simp_all add: responseCalls_def)

lemma responseCalls_append [simp]:
  "responseCalls me (xs @ ys) = responseCalls me xs @ responseCalls me ys"
  by (simp add: responseCalls_def)

lemma responseCalls_unsubscribe [simp]:
  "responseCalls me (map (\<lambda>r. ReqRemoveCloseListener (f r)) rs) = []"
  by (induction rs) simp_all




section \<open>Identities are unique\<close>
















text \<open>The handlers of a transfer never change who takes part in it.\<close>

lemma tpipe_closeReceiver [simp]: "tpipe (fst (closeReceiver r t s)) = tpipe t"
  by (simp add: closeReceiver_def Let_def)

lemma tpipe_receiverHandlers [simp]: "tpipe (fst (receiverHandlers me rs t s)) = tpipe t"
proof (induction rs arbitrary: t s)
  case Nil
  then show ?case by simp
next
  case (Cons r rs)
  obtain t1 s1 where c: "closeReceiver r t s = (t1, s1)" by (cases "closeReceiver r t s")
  then have "tpipe t1 = tpipe t" using tpipe_closeReceiver [of r t s] by simp
  with Cons.IH [of t1 s1] Cons.IH [of t s] c show ?case by simp
qed

lemma tpipe_handlers [simp]:
  "tpipe (fst (onReqClose me t s)) = tpipe t"
  "tpipe (fst (onReqError me t s)) = tpipe t"
  "tpipe (fst (onReqEnd me t s)) = tpipe t"
  "tpipe (fst (onFormPart me p t s)) = tpipe t"
  "tpipe (fst (onPart h me t s)) = tpipe t"
  by (auto simp: onReqClose_def onReqError_def onReqEnd_def onFormPart_def onPart_def
      startStreaming_def split: phase.splits prod.splits
      dest: arg_cong [where f = "\<lambda>x. tpipe (fst x)"])












lemma fold_destroy_fields [simp]:
  "pathToEstablished (fold (\<lambda>r. emit (ResConnectionDestroy (ident r))) rs s) = pathToEstablished s"
  "pathToUnestablishedPipe (fold (\<lambda>r. emit (ResConnectionDestroy (ident r))) rs s) =
     pathToUnestablishedPipe s"
  "effects (fold (\<lambda>r. emit (ResConnectionDestroy (ident r))) rs s) =
     effects s @ map (\<lambda>r. ResConnectionDestroy (ident r)) rs"
  by (induction rs arbitrary: s) simp_all

lemma senderOnClose_fields [simp]:
  "pathToEstablished (senderOnClose t s) = pathToEstablished s"
  "pathToUnestablishedPipe (senderOnClose t s) = pathToUnestablishedPipe s"
  "effects (senderOnClose t s) =
     effects s @ map (\<lambda>r. ResConnectionDestroy (ident r)) (pipe_receivers (tpipe t))"
  by (simp_all add: senderOnClose_def)

lemma effects_fireCloseListener [simp]: "effects (fireCloseListener me s) = effects s"
  by (simp add: fireCloseListener_def split: option.splits)

section \<open>Establishment\<close>

text \<open>
  Claim C1. \<open>registeredSender\<close> and \<open>registeredReceiver\<close> give the record of the path
  as it stands right after the arriving participant has been registered (nothing when the
  request is rejected). An arrival (in \<open>handleSender\<close>, in \<open>handleReceiver\<close>, and seen
  from the handler of all requests) starts a transfer exactly when that record has a sender
  and \<open>nReceivers\<close> receivers and the path is not marked established; the transfer then
  takes the sender and the receivers of that record, the record is removed and the flag
  set; otherwise the record stays as registered. An arrival that is rejected leaves the
  records alone, and no event other than a request starts a transfer.
\<close>

theorem establishment_equivalence:
  "(started s (handleSender rr path s) \<longleftrightarrow>
      (\<exists>up. registeredSender rr path s = Some up \<and> establishment_predicate up) \<and>
      pathToEstablished s path = None) \<and>
   (started s (handleReceiver rr path s) \<longleftrightarrow>
      (\<exists>up. registeredReceiver rr path s = Some up \<and> establishment_predicate up) \<and>
      pathToEstablished s path = None) \<and>
   (case registeredSender rr path s of
      Some up \<Rightarrow> registrationOutcome up path s (handleSender rr path s)
    | None \<Rightarrow> pathToUnestablishedPipe (handleSender rr path s) = pathToUnestablishedPipe s) \<and>
   (case registeredReceiver rr path s of
      Some up \<Rightarrow> registrationOutcome up path s (handleReceiver rr path s)
    | None \<Rightarrow> pathToUnestablishedPipe (handleReceiver rr path s) = pathToUnestablishedPipe s) \<and>
   ((\<forall>rq. ev \<noteq> Request rq) \<longrightarrow> \<not> started s (step cfg ev s)) \<and>
   (started s (handler cfg rq s) \<longleftrightarrow>
      reqPath rq \<notin> set RESERVED_PATHS \<and>
      ((reqMethod rq = ''POST'' \<or> reqMethod rq = ''PUT'') \<and>
       (\<exists>up. registeredSender \<lparr>ident = nextId s, req = rq\<rparr> (reqPath rq) s = Some up \<and>
             establishment_predicate up) \<or>
       reqMethod rq = ''GET'' \<and>
       (\<exists>up. registeredReceiver \<lparr>ident = nextId s, req = rq\<rparr> (reqPath rq) s = Some up \<and>
             establishment_predicate up)))"
proof -
  have "(\<forall>rq. ev \<noteq> Request rq) \<longrightarrow> \<not> started s (step cfg ev s)"
    using step_keeps_transfers [of ev cfg s] by (simp add: started_def newTransfers_def)
  then show ?thesis
    using sender_equiv [of s rr path] receiver_equiv [of s rr path]
      sender_outcome [of rr path s] receiver_outcome [of rr path s]
      sender_rejected [of rr path s] receiver_rejected [of rr path s]
      handler_equiv [of s cfg rq]
    by (simp split: option.splits)
qed

theorem establishment_equivalence_witness:
  "registeredSender \<lparr>ident = 1, req = exampleRequest ''POST'' ''/foo'' None\<rparr> ''/foo''
     (run exampleConfig [Request (exampleRequest ''GET'' ''/foo'' None)]) =
   Some \<lparr>sender = Some \<lparr>reqRes = \<lparr>ident = 1, req = exampleRequest ''POST'' ''/foo'' None\<rparr>\<rparr>,
         receivers = [\<lparr>reqRes = \<lparr>ident = 0, req = exampleRequest ''GET'' ''/foo'' None\<rparr>\<rparr>],
         nReceivers = 1\<rparr> \<and>
   started (run exampleConfig [Request (exampleRequest ''GET'' ''/foo'' None)])
     (handleSender \<lparr>ident = 1, req = exampleRequest ''POST'' ''/foo'' None\<rparr> ''/foo''
        (run exampleConfig [Request (exampleRequest ''GET'' ''/foo'' None)])) \<and>
   registeredReceiver \<lparr>ident = 0, req = exampleRequest ''GET'' ''/foo'' None\<rparr> ''/foo'' init =
   Some \<lparr>sender = None,
         receivers = [\<lparr>reqRes = \<lparr>ident = 0, req = exampleRequest ''GET'' ''/foo'' None\<rparr>\<rparr>],
         nReceivers = 1\<rparr> \<and>
   \<not> started init (handleReceiver \<lparr>ident = 0, req = exampleRequest ''GET'' ''/foo'' None\<rparr> ''/foo'' init) \<and>
   \<not> started init (step exampleConfig (ReqClose 0) init)"
  using establishment_equivalence [of
      "run exampleConfig [Request (exampleRequest ''GET'' ''/foo'' None)]"
      "\<lparr>ident = 1, req = exampleRequest ''POST'' ''/foo'' None\<rparr>" "''/foo''" "ReqClose 0" exampleConfig
      "exampleRequest ''POST'' ''/foo'' None"]
    establishment_equivalence [of init
      "\<lparr>ident = 0, req = exampleRequest ''GET'' ''/foo'' None\<rparr>" "''/foo''" "ReqClose 0" exampleConfig
      "exampleRequest ''GET'' ''/foo'' None"]
  by (simp add: registeredSender_def registeredReceiver_def establishment_predicate_def
      run_def init_def handler_def Let_def exampleRequest_def RESERVED_PATHS_def
      handleReceiver_def getNReceivers_def nanOrElse_def createSenderOrReceiver_def emit_def)

section \<open>Close listeners at establishment\<close>

text \<open>
  Claim C2 asks that every participant handed to the transfer engine, the sender and all
  receivers, has had its close listener revoked exactly once before the transfer starts.
  \<open>getPipeIfEstablished\<close> revokes the listeners of the receivers only. In the run below a
  receiver and then a sender arrive on \<open>/foo\<close>: the transfer starts, the listener of the
  receiver (identity 0) has been removed once, the listener of the sender (identity 1) is
  never removed and stays installed. When the transfer has ended and a new sender
  (identity 2) waits on \<open>/foo\<close>, the \<open>close\<close> of the first sender's request runs that
  listener, which deletes the record of the new sender.
\<close>

theorem sender_listener_survives:
  "map tpath (transfers
     (run exampleConfig [Request (exampleRequest ''GET'' ''/foo'' None),
                         Request (exampleRequest ''POST'' ''/foo'' None)])) = [''/foo''] \<and>
   map (\<lambda>t. ident (pipe_sender (tpipe t))) (transfers
     (run exampleConfig [Request (exampleRequest ''GET'' ''/foo'' None),
                         Request (exampleRequest ''POST'' ''/foo'' None)])) = [1] \<and>
   map (\<lambda>t. map ident (pipe_receivers (tpipe t))) (transfers
     (run exampleConfig [Request (exampleRequest ''GET'' ''/foo'' None),
                         Request (exampleRequest ''POST'' ''/foo'' None)])) = [[0]] \<and>
   effects
     (run exampleConfig [Request (exampleRequest ''GET'' ''/foo'' None),
                         Request (exampleRequest ''POST'' ''/foo'' None)]) =
     [ReqOnceClose 0, ReqOnceClose 1,
      ResWrite 1 (''[INFO] Waiting for 1 receiver(s)...'' @ [CHR 0x0A]),
      ResWrite 1 (''[INFO] 1 receiver(s) has/have been connected.'' @ [CHR 0x0A]),
      ReqRemoveCloseListener 0,
      ResWrite 1 (''Start sending!'' @ [CHR 0x0A]),
      ResWriteHead 0 200 [], PipeTo 1 0] \<and>
   count_list
     (effects (run exampleConfig [Request (exampleRequest ''GET'' ''/foo'' None),
                                  Request (exampleRequest ''POST'' ''/foo'' None)]))
     (ReqRemoveCloseListener 0) = 1 \<and>
   count_list
     (effects (run exampleConfig [Request (exampleRequest ''GET'' ''/foo'' None),
                                  Request (exampleRequest ''POST'' ''/foo'' None)]))
     (ReqRemoveCloseListener 1) = 0 \<and>
   closeListeners
     (run exampleConfig [Request (exampleRequest ''GET'' ''/foo'' None),
                         Request (exampleRequest ''POST'' ''/foo'' None)]) 0 = None \<and>
   closeListeners
     (run exampleConfig [Request (exampleRequest ''GET'' ''/foo'' None),
                         Request (exampleRequest ''POST'' ''/foo'' None)]) 1 = Some (SenderT, ''/foo'') \<and>
   map_option (\<lambda>up. map_option (\<lambda>sd. ident (reqRes sd)) (sender up))
     (pathToUnestablishedPipe
        (run exampleConfig [Request (exampleRequest ''GET'' ''/foo'' None),
                            Request (exampleRequest ''POST'' ''/foo'' None),
                            ReqEnd 1,
                            Request (exampleRequest ''POST'' ''/foo'' None)]) ''/foo'') = Some (Some 2) \<and>
   pathToUnestablishedPipe
     (run exampleConfig [Request (exampleRequest ''GET'' ''/foo'' None),
                         Request (exampleRequest ''POST'' ''/foo'' None),
                         ReqEnd 1,
                         Request (exampleRequest ''POST'' ''/foo'' None),
                         ReqClose 1]) ''/foo'' = None"
  by (simp add: eval_defs msgWaiting_def msgConnected_def showInt_def showNat.simps nl_def)

section \<open>The source of a transfer fails\<close>




section \<open>Receivers closing during a transfer\<close>

text \<open>
  Claim C4 asks that the message \<open>[INFO] All receiver(s) was/were closed halfway.\<close> is
  sent only when all receivers of the transfer have disconnected. \<open>closeReceiver\<close> is the
  handler of both \<open>close\<close> and \<open>error\<close> of a receiver's request and counts calls, not
  receivers. In the run below two receivers (identities 0 and 1) and a sender (identity 2)
  meet on \<open>/z\<close> with \<open>n=2\<close>; the request of receiver 0 emits \<open>error\<close> and then
  \<open>close\<close>. The count reaches 2, the message is sent, the flag cleared and the sender's
  connection destroyed, while receiver 1 has emitted nothing.
\<close>

theorem receiver_counted_twice:
  "map (\<lambda>t. map ident (pipe_receivers (tpipe t))) (transfers
     (run exampleConfig [Request (exampleRequest ''GET'' ''/z'' (Some ''2'')),
                         Request (exampleRequest ''GET'' ''/z'' (Some ''2'')),
                         Request (exampleRequest ''POST'' ''/z'' (Some ''2''))])) = [[0, 1]] \<and>
   pathToEstablished
     (run exampleConfig [Request (exampleRequest ''GET'' ''/z'' (Some ''2'')),
                         Request (exampleRequest ''GET'' ''/z'' (Some ''2'')),
                         Request (exampleRequest ''POST'' ''/z'' (Some ''2''))]) ''/z'' = Some True \<and>
   emitted
     (run exampleConfig [Request (exampleRequest ''GET'' ''/z'' (Some ''2'')),
                         Request (exampleRequest ''GET'' ''/z'' (Some ''2'')),
                         Request (exampleRequest ''POST'' ''/z'' (Some ''2''))])
     (run exampleConfig [Request (exampleRequest ''GET'' ''/z'' (Some ''2'')),
                         Request (exampleRequest ''GET'' ''/z'' (Some ''2'')),
                         Request (exampleRequest ''POST'' ''/z'' (Some ''2'')),
                         ReqError 0, ReqClose 0]) =
     [Unpipe 2 0, Unpipe 2 0,
      ResEnd 2 (''[INFO] All receiver(s) was/were closed halfway.'' @ [CHR 0x0A]),
      ReqConnectionDestroy 2] \<and>
   map closeCount (transfers
     (run exampleConfig [Request (exampleRequest ''GET'' ''/z'' (Some ''2'')),
                         Request (exampleRequest ''GET'' ''/z'' (Some ''2'')),
                         Request (exampleRequest ''POST'' ''/z'' (Some ''2'')),
                         ReqError 0, ReqClose 0])) = [2] \<and>
   pathToEstablished
     (run exampleConfig [Request (exampleRequest ''GET'' ''/z'' (Some ''2'')),
                         Request (exampleRequest ''GET'' ''/z'' (Some ''2'')),
                         Request (exampleRequest ''POST'' ''/z'' (Some ''2'')),
                         ReqError 0, ReqClose 0]) ''/z'' = None"
  by (simp add: eval_defs nl_def)

section \<open>The receiver count\<close>




section \<open>A sender joining a record\<close>



section \<open>Arrivals on an established path\<close>

text \<open>
  Claim C7, amended. When the established flag of the path is set and the receiver count
  of the request is positive, a sender (POST or PUT) is answered with status 400 and
  \<open>[ERROR] Connection on '<path>' has been established already.\<close>, a receiver (GET) with
  status 400 and \<open>Error: Connection on '<path>' has been established already.\<close>, each
  followed by a newline. (With a count of 0 or less the count is rejected first, as the
  counterexample shows.)
\<close>

theorem established_rejection:
  assumes "pathToEstablished (run cfg evs) (reqPath rq) \<noteq> None" and "0 < getNReceivers rq"
  shows "(reqMethod rq = ''POST'' \<or> reqMethod rq = ''PUT'' \<longrightarrow>
            emitted (run cfg evs) (handler cfg rq (run cfg evs)) =
              [ResWriteHead (nextId (run cfg evs)) 400 [],
               ResEnd (nextId (run cfg evs))
                 (''[ERROR] Connection on '' @ sq @ reqPath rq @ sq @
                  '' has been established already.'' @ nl)]) \<and>
         (reqMethod rq = ''GET'' \<longrightarrow>
            emitted (run cfg evs) (handler cfg rq (run cfg evs)) =
              [ResWriteHead (nextId (run cfg evs)) 400 [],
               ResEnd (nextId (run cfg evs))
                 (''Error: Connection on '' @ sq @ reqPath rq @ sq @
                  '' has been established already.'' @ nl)])"
proof -
  have "reserved_free (run cfg evs)" using inv_run [of cfg evs] by (simp add: inv_def)
  with assms(1) have nr: "reqPath rq \<notin> set RESERVED_PATHS" by (auto simp: reserved_free_def)
  then have nr': "reqPath rq \<noteq> ''/''" "reqPath rq \<noteq> ''/version''" "reqPath rq \<noteq> ''/help''"
    by (auto simp: RESERVED_PATHS_def)
  show ?thesis
    using assms nr nr'
    by (simp add: handler_def Let_def handleSender_established handleReceiver_established
        msgSenderEstablished_def msgReceiverEstablished_def)
qed

theorem established_rejection_witness:
  "pathToEstablished
     (run exampleConfig [Request (exampleRequest ''GET'' ''/foo'' None),
                         Request (exampleRequest ''POST'' ''/foo'' None)]) ''/foo'' \<noteq> None \<and>
   0 < getNReceivers (exampleRequest ''POST'' ''/foo'' None) \<and>
   emitted
     (run exampleConfig [Request (exampleRequest ''GET'' ''/foo'' None),
                         Request (exampleRequest ''POST'' ''/foo'' None)])
     (handler exampleConfig (exampleRequest ''POST'' ''/foo'' None)
        (run exampleConfig [Request (exampleRequest ''GET'' ''/foo'' None),
                            Request (exampleRequest ''POST'' ''/foo'' None)])) =
     [ResWriteHead 2 400 [],
      ResEnd 2 (''[ERROR] Connection on '' @ [CHR 0x27] @ ''/foo'' @ [CHR 0x27] @
                '' has been established already.'' @ [CHR 0x0A])]"
proof -
  have a: "reqPath (exampleRequest ''POST'' ''/foo'' None) = ''/foo''"
    "reqMethod (exampleRequest ''POST'' ''/foo'' None) = ''POST''"
    by (simp_all add: exampleRequest_def)
  have b: "0 < getNReceivers (exampleRequest ''POST'' ''/foo'' None)"
    by (simp add: getNReceivers_def nanOrElse_def exampleRequest_def)
  from example_established have c: "pathToEstablished
     (run exampleConfig [Request (exampleRequest ''GET'' ''/foo'' None),
                         Request (exampleRequest ''POST'' ''/foo'' None)])
     (reqPath (exampleRequest ''POST'' ''/foo'' None)) \<noteq> None"
    by (simp add: a)
  from established_rejection [OF c b] a b c example_established show ?thesis
    by (simp add: sq_def nl_def)
qed

text \<open>
  The claim as stated has no condition on the count: here the flag of \<open>/foo\<close> is set and a
  sender arrives with \<open>n=0\<close>; it is answered with the message about the count.
\<close>

theorem established_rejection_counterexample:
  "pathToEstablished
     (run exampleConfig [Request (exampleRequest ''GET'' ''/foo'' None),
                         Request (exampleRequest ''POST'' ''/foo'' None)]) ''/foo'' \<noteq> None \<and>
   emitted
     (run exampleConfig [Request (exampleRequest ''GET'' ''/foo'' None),
                         Request (exampleRequest ''POST'' ''/foo'' None)])
     (handler exampleConfig (exampleRequest ''POST'' ''/foo'' (Some ''0''))
        (run exampleConfig [Request (exampleRequest ''GET'' ''/foo'' None),
                            Request (exampleRequest ''POST'' ''/foo'' None)])) =
     [ResWriteHead 2 400 [], ResEnd 2 (''[ERROR] n should > 0, but n = 0.'' @ [CHR 0x0A])] \<and>
   emitted
     (run exampleConfig [Request (exampleRequest ''GET'' ''/foo'' None),
                         Request (exampleRequest ''POST'' ''/foo'' None)])
     (handler exampleConfig (exampleRequest ''POST'' ''/foo'' (Some ''0''))
        (run exampleConfig [Request (exampleRequest ''GET'' ''/foo'' None),
                            Request (exampleRequest ''POST'' ''/foo'' None)])) \<noteq>
     [ResWriteHead 2 400 [],
      ResEnd 2 (''[ERROR] Connection on '' @ [CHR 0x27] @ ''/foo'' @ [CHR 0x27] @
                '' has been established already.'' @ [CHR 0x0A])]"
proof -
  have n: "getNReceivers (exampleRequest ''POST'' ''/foo'' (Some ''0'')) = 0"
    by (simp add: getNReceivers_def nanOrElse_def exampleRequest_def parseInt10_def signOf_def dropSign_def
        isWhiteSpace_def isDigit_def digitsVal_def digitVal_def)
  have r: "reqPath (exampleRequest ''POST'' ''/foo'' (Some ''0'')) = ''/foo''"
    "reqMethod (exampleRequest ''POST'' ''/foo'' (Some ''0'')) = ''POST''"
    by (simp_all add: exampleRequest_def)
  have "handler exampleConfig (exampleRequest ''POST'' ''/foo'' (Some ''0'')) s =
        reply (nextId s) 400 (msgBadCount 0) (s\<lparr>nextId := Suc (nextId s)\<rparr>)" for s
    by (simp add: handler_def Let_def r RESERVED_PATHS_def handleSender_bad_count n)
  then show ?thesis
    using example_established
    by (simp add: msgBadCount_def showInt_def showNat.simps nl_def)
qed

section \<open>Bounds on the records\<close>

text \<open>
  Claim C8. After every sequence of events every unestablished record has at most
  \<open>nReceivers\<close> receivers and \<open>nReceivers\<close> is at least 1; and the bound is kept by a
  sender arrival, a receiver arrival, the close listener (the closure itself and its firing
  on a \<open>close\<close> event) and every other event.
\<close>

theorem record_counts:
  "(\<forall>path up. pathToUnestablishedPipe (run cfg evs) path = Some up \<longrightarrow>
      int (length (receivers up)) \<le> nReceivers up \<and> 1 \<le> nReceivers up) \<and>
   (counts_ok s \<longrightarrow>
      counts_ok (handleSender rr path s) \<and> counts_ok (handleReceiver rr path s) \<and>
      counts_ok (closeListener rt me path s) \<and> counts_ok (fireCloseListener me s) \<and>
      counts_ok (step cfg ev s))"
  using inv_run [of cfg evs]
  by (simp add: inv_def counts_ok_def [of "run cfg evs"] counts_ok_handleSender
      counts_ok_handleReceiver counts_ok_closeListener counts_ok_fireCloseListener counts_ok_step)

theorem record_counts_witness:
  "pathToUnestablishedPipe
     (run exampleConfig [Request (exampleRequest ''GET'' ''/foo'' (Some ''2''))]) ''/foo'' =
   Some \<lparr>sender = None,
         receivers = [\<lparr>reqRes = \<lparr>ident = 0, req = exampleRequest ''GET'' ''/foo'' (Some ''2'')\<rparr>\<rparr>],
         nReceivers = 2\<rparr> \<and>
   int (length [\<lparr>reqRes = \<lparr>ident = 0, req = exampleRequest ''GET'' ''/foo'' (Some ''2'')\<rparr>\<rparr>]) \<le> 2 \<and>
   counts_ok init \<and>
   counts_ok (step exampleConfig (Request (exampleRequest ''GET'' ''/foo'' (Some ''2''))) init)"
proof -
  have c: "counts_ok init" by (simp add: counts_ok_def init_def)
  from record_counts [of exampleConfig "[Request (exampleRequest ''GET'' ''/foo'' (Some ''2''))]"
      init _ _ _ _ "Request (exampleRequest ''GET'' ''/foo'' (Some ''2''))"] c example_waiting
  show ?thesis by simp
qed

section \<open>Unsupported methods\<close>

text \<open>
  Claim C9. A request whose method is not GET, POST or PUT gets exactly one call on its
  response, \<open>res.end\<close> with the body \<open>Error: Unsupported method: <METHOD>\<close> and a
  newline; no status is written, so the response goes out with the default status 200; and
  both maps of the registry are as they were.
\<close>

theorem unsupported_method:
  assumes "reqMethod rq \<noteq> ''GET''" "reqMethod rq \<noteq> ''POST''" "reqMethod rq \<noteq> ''PUT''"
  shows "emitted s (handler cfg rq s) =
           [ResEnd (nextId s) (''Error: Unsupported method: '' @ reqMethod rq @ nl)] \<and>
         statusCode (nextId s) (emitted s (handler cfg rq s)) = 200 \<and>
         pathToEstablished (handler cfg rq s) = pathToEstablished s \<and>
         pathToUnestablishedPipe (handler cfg rq s) = pathToUnestablishedPipe s"
  using assms by (simp add: handler_def Let_def statusCode_def)

theorem unsupported_method_witness:
  "reqMethod (exampleRequest ''DELETE'' ''/foo'' None) \<noteq> ''GET'' \<and>
   reqMethod (exampleRequest ''DELETE'' ''/foo'' None) \<noteq> ''POST'' \<and>
   reqMethod (exampleRequest ''DELETE'' ''/foo'' None) \<noteq> ''PUT'' \<and>
   emitted init (handler exampleConfig (exampleRequest ''DELETE'' ''/foo'' None) init) =
     [ResEnd 0 (''Error: Unsupported method: DELETE'' @ [CHR 0x0A])] \<and>
   statusCode 0 (emitted init (handler exampleConfig (exampleRequest ''DELETE'' ''/foo'' None) init)) = 200 \<and>
   pathToEstablished (handler exampleConfig (exampleRequest ''DELETE'' ''/foo'' None) init) = Map.empty \<and>
   pathToUnestablishedPipe (handler exampleConfig (exampleRequest ''DELETE'' ''/foo'' None) init) = Map.empty"
  using unsupported_method [of "exampleRequest ''DELETE'' ''/foo'' None" init exampleConfig]
  by (simp add: exampleRequest_def init_def nl_def statusCode_def emitted_def)


section \<open>Reserved paths\<close>

text \<open>
  Claim C10. After every sequence of events none of the reserved paths \<open>/\<close>,
  \<open>/version\<close>, \<open>/help\<close> is a key of the map of unestablished pipes or of the map of
  established flags. A request on a reserved path leaves both maps and the close listeners
  as they were: a POST or PUT is answered with status 400 and the reserved-path message, a
  GET with the static page of the path.
\<close>

theorem reserved_paths_unregistered:
  "(\<forall>p \<in> set RESERVED_PATHS.
      pathToUnestablishedPipe (run cfg evs) p = None \<and> pathToEstablished (run cfg evs) p = None) \<and>
   (reqPath rq \<in> set RESERVED_PATHS \<longrightarrow>
      pathToUnestablishedPipe (handler cfg rq s) = pathToUnestablishedPipe s \<and>
      pathToEstablished (handler cfg rq s) = pathToEstablished s \<and>
      closeListeners (handler cfg rq s) = closeListeners s \<and>
      (reqMethod rq = ''POST'' \<or> reqMethod rq = ''PUT'' \<longrightarrow>
         emitted s (handler cfg rq s) =
           [ResWriteHead (nextId s) 400 [], ResEnd (nextId s) (msgReserved (reqPath rq))]) \<and>
      (reqMethod rq = ''GET'' \<longrightarrow>
         emitted s (handler cfg rq s) = [ResEnd (nextId s) (staticPage cfg rq)]))"
proof -
  have "reserved_free (run cfg evs)" using inv_run [of cfg evs] by (simp add: inv_def)
  then have a: "\<forall>p \<in> set RESERVED_PATHS.
      pathToUnestablishedPipe (run cfg evs) p = None \<and> pathToEstablished (run cfg evs) p = None"
    by (simp add: reserved_free_def)
  have b: "reqPath rq \<in> set RESERVED_PATHS \<longrightarrow>
      pathToUnestablishedPipe (handler cfg rq s) = pathToUnestablishedPipe s \<and>
      pathToEstablished (handler cfg rq s) = pathToEstablished s \<and>
      closeListeners (handler cfg rq s) = closeListeners s \<and>
      (reqMethod rq = ''POST'' \<or> reqMethod rq = ''PUT'' \<longrightarrow>
         emitted s (handler cfg rq s) =
           [ResWriteHead (nextId s) 400 [], ResEnd (nextId s) (msgReserved (reqPath rq))]) \<and>
      (reqMethod rq = ''GET'' \<longrightarrow>
         emitted s (handler cfg rq s) = [ResEnd (nextId s) (staticPage cfg rq)])"
    by (auto simp: handler_def Let_def RESERVED_PATHS_def staticPage_def)
  from a b show ?thesis by blast
qed

theorem reserved_paths_unregistered_witness:
  "''/version'' \<in> set RESERVED_PATHS \<and>
   pathToUnestablishedPipe
     (run exampleConfig [Request (exampleRequest ''POST'' ''/version'' None),
                         Request (exampleRequest ''GET'' ''/help'' None),
                         Request (exampleRequest ''GET'' ''/foo'' None)]) ''/version'' = None \<and>
   pathToEstablished
     (run exampleConfig [Request (exampleRequest ''POST'' ''/version'' None),
                         Request (exampleRequest ''GET'' ''/help'' None),
                         Request (exampleRequest ''GET'' ''/foo'' None)]) ''/version'' = None \<and>
   pathToUnestablishedPipe (handler exampleConfig (exampleRequest ''POST'' ''/version'' None) init) =
     Map.empty \<and>
   emitted init (handler exampleConfig (exampleRequest ''POST'' ''/version'' None) init) =
     [ResWriteHead 0 400 [],
      ResEnd 0 (''[ERROR] Cannot send to a reserved path '' @ [CHR 0x27] @ ''/version'' @ [CHR 0x27] @
                ''. (e.g. '' @ [CHR 0x27] @ ''/mypath123'' @ [CHR 0x27] @ '')'' @ [CHR 0x0A])]"
  using reserved_paths_unregistered [of exampleConfig
      "[Request (exampleRequest ''POST'' ''/version'' None),
        Request (exampleRequest ''GET'' ''/help'' None),
        Request (exampleRequest ''GET'' ''/foo'' None)]"
      "exampleRequest ''POST'' ''/version'' None" init]
  by (simp add: RESERVED_PATHS_def exampleRequest_def init_def msgReserved_def sq_def nl_def)

end
